theory Spec2Isabelle
  imports Complex_Main "HOL-Library.Multiset" "HOL-Library.Char_ord"
    "HOL-Library.List_Lexorder" "HOL-Library.Product_Lexorder"
begin

section \<open>Strings\<close>

text \<open>
  Python strings are modelled as \<open>string\<close>, restricted to ASCII: \<open>str.lower\<close> maps
  \<open>A..Z\<close> to \<open>a..z\<close>, \<open>str.strip\<close> removes ASCII white space at both ends.
\<close>

definition lower_char :: "char \<Rightarrow> char" where
  "lower_char c =
     (case map_of (zip ''ABCDEFGHIJKLMNOPQRSTUVWXYZ'' ''abcdefghijklmnopqrstuvwxyz'') c of
        Some l \<Rightarrow> l | None \<Rightarrow> c)"

definition lower :: "string \<Rightarrow> string" where
  "lower s = map lower_char s"

definition is_space :: "char \<Rightarrow> bool" where
  "is_space c = (c \<in> set [CHR '' '', CHR 0x09, CHR 0x0A, CHR 0x0B, CHR 0x0C, CHR 0x0D,
                           CHR 0x1C, CHR 0x1D, CHR 0x1E, CHR 0x1F])"

definition strip :: "string \<Rightarrow> string" where
  "strip s = rev (dropWhile is_space (rev (dropWhile is_space s)))"

text \<open>\<open>pat in s\<close>: the pattern occurs in \<open>s\<close> as a contiguous substring.\<close>

fun is_substr :: "string \<Rightarrow> string \<Rightarrow> bool" where
  "is_substr p [] = (p = [])"
| "is_substr p (c # s) = (take (length p) (c # s) = p \<or> is_substr p s)"

text \<open>The characters that are not matched literally by \<open>re\<close>.\<close>

definition regex_special :: "char list" where
  "regex_special = [CHR ''.'', CHR ''^'', CHR ''$'', CHR ''*'', CHR ''+'', CHR ''?'',
                    CHR ''{'', CHR ''}'', CHR ''['', CHR '']'', CHR 0x5C, CHR ''|'',
                    CHR ''('', CHR '')'']"

definition is_literal :: "string \<Rightarrow> bool" where
  "is_literal p = list_all (\<lambda>c. c \<notin> set regex_special) p"

text \<open>\<open>str(n)\<close> for a natural number, and the format \<open>f"{m:02d}"\<close>.\<close>

fun str_nat :: "nat \<Rightarrow> string" where
  "str_nat n = (if n < 10 then [''0123456789'' ! n]
                else str_nat (n div 10) @ [''0123456789'' ! (n mod 10)])"

declare str_nat.simps [simp del]

definition fmt_02d :: "nat \<Rightarrow> string" where
  "fmt_02d m = (if m < 10 then CHR ''0'' # str_nat m else str_nat m)"

definition fmt_04d :: "nat \<Rightarrow> string" where
  "fmt_04d y = replicate (4 - length (str_nat y)) CHR ''0'' @ str_nat y"

section \<open>Data model\<close>

text \<open>
  A calendar date is (year, month, day), ordered lexicographically. The time of day of a
  pandas \<open>Timestamp\<close> is not modelled.
\<close>

type_synonym date = "nat \<times> nat \<times> nat"

definition year :: "date \<Rightarrow> nat" where "year d = fst d"
definition month :: "date \<Rightarrow> nat" where "month d = fst (snd d)"

definition strftime_ymd :: "date \<Rightarrow> string" where
  "strftime_ymd d = fmt_04d (fst d) @ ''-'' @ fmt_02d (fst (snd d)) @ ''-'' @ fmt_02d (snd (snd d))"

text \<open>
  A cell of a table as a pandas reader delivers it: empty (NaN), a text, a number or a
  date. A column whose entries are all numerals is read as numbers (\<open>int64\<close> or
  \<open>float64\<close>), not as text.
\<close>

datatype cell = NaN | Txt string | Num rat | Day date

text \<open>
  One row of \<open>self.df\<close> after \<open>load_file\<close> has normalised it. \<open>idx\<close> is the row's label
  in the DataFrame index; \<open>original_index\<close> is the column of that name (the stable id).
  The date is \<open>None\<close> for NaT. The five text columns hold cells of any kind, as they were
  read. The amounts of a row are rationals (every \<open>int64\<close> and every finite \<open>float64\<close> is
  one); the sums of a column are the library's (\<open>col_sum\<close> and \<open>grp_sum\<close> below), which
  wrap on \<open>int64\<close> and round on \<open>float64\<close>. The comparison of two amounts is exact, as
  in the code; the difference of two amounts is taken as exact.
\<close>

record expense =
  idx :: int
  original_index :: int
  report_name :: cell
  expense_date :: "date option"
  expense_amount :: rat
  income_amount :: rat
  expense_description :: cell
  expense_category :: cell
  merchant_name :: cell
  paid_through :: cell

text \<open>A row of the analysed frame \<open>d\<close>: the row with its \<open>Bal\<close> column.\<close>

record frow =
  row :: expense
  bal :: rat

definition date_key :: "frow \<Rightarrow> date" where
  "date_key r = (case expense_date (row r) of Some d \<Rightarrow> d | None \<Rightarrow> (0, 0, 0))"

record grp =
  g_category :: cell
  g_merchant :: cell
  g_count :: nat
  g_inc :: rat
  g_exp :: rat
  g_total :: rat

datatype error = ValueError | KeyError | ReError | TypeError

datatype dialog = ShowInfo string | ShowWarning string | ShowError string

text \<open>
  \<open>self.filters\<close>: the text of each variable, the value list of each combobox (cells for
  the four columns that are read as they are, texts for year and month), and the
  optional range entries (\<open>None\<close>: the key is not in the dictionary).
\<close>

record filters =
  report_var :: string
  year_var :: string
  month_var :: string
  category_var :: string
  merchant_var :: string
  paid_var :: string
  desc_var :: string
  report_combo :: "cell list"
  year_combo :: "string list"
  month_combo :: "string list"
  category_combo :: "cell list"
  merchant_combo :: "cell list"
  paid_combo :: "cell list"
  date_start :: "string option"
  date_end :: "string option"
  exp_min :: "string option"
  exp_max :: "string option"
  inc_min :: "string option"
  inc_max :: "string option"

text \<open>
  The library functions the code calls, taken as parameters:
  \<^item> \<open>to_datetime\<close>: \<open>pd.to_datetime\<close> on one string; \<open>Inl\<close> when it raises, \<open>Inr None\<close> for NaT;
  \<^item> \<open>py_float\<close>, \<open>py_int\<close>: \<open>float(s)\<close> and \<open>int(s)\<close>; \<open>None\<close> is ValueError;
  \<^item> \<open>re_compile\<close>: \<open>re.compile\<close> of a pattern that has a metacharacter, with or without
    \<open>re.IGNORECASE\<close>, as the predicate "\<open>search\<close> finds a match"; \<open>None\<close> is \<open>re.error\<close>;
  \<^item> \<open>sort_values\<close>: \<open>d.sort_values('Expense Date', ascending=False)\<close> with the default
    \<open>kind='quicksort'\<close>;
  \<^item> \<open>py_str\<close>: \<open>str\<close> of a cell that is a number or a date;
  \<^item> \<open>col_sum\<close>, \<open>grp_sum\<close>: \<open>Series.sum()\<close>, and the \<open>sum\<close> of \<open>groupby(...).agg\<close> over one
    group, on the values of a numeric column, in the arithmetic of its dtype;
  \<^item> \<open>tk_in\<close>: \<open>curr in combo['values']\<close> when a value given to the combobox is not a text
    (Tk hands the values back converted).
\<close>

record pylib =
  to_datetime :: "string \<Rightarrow> error + date option"
  py_float :: "string \<Rightarrow> rat option"
  py_int :: "string \<Rightarrow> int option"
  re_compile :: "bool \<Rightarrow> string \<Rightarrow> (string \<Rightarrow> bool) option"
  sort_values :: "frow list \<Rightarrow> frow list"
  py_str :: "cell \<Rightarrow> string"
  col_sum :: "rat list \<Rightarrow> rat"
  grp_sum :: "rat list \<Rightarrow> rat"
  tk_in :: "string \<Rightarrow> cell list \<Rightarrow> bool"

record app =
  df :: "expense list option"
  filtered_df :: "frow list option"
  filters :: filters
  updating_combos :: bool
  edit_mode :: bool
  lbl_records :: "nat option"
  lbl_inc :: "rat option"
  lbl_exp :: "rat option"
  lbl_bal :: "rat option"
  sum_tree :: "grp list"
  tree :: "frow list"
  btn_save_shown :: bool
  dialogs :: "dialog list"

section \<open>Column predicates\<close>

text \<open>
  \<open>Series.astype(str)\<close>, on one cell: a text stays, NaN becomes the string \<open>nan\<close>, a
  number or a date becomes its \<open>str\<close>.
\<close>

definition astype_str :: "pylib \<Rightarrow> cell \<Rightarrow> string" where
  "astype_str L v = (case v of Txt s \<Rightarrow> s | NaN \<Rightarrow> ''nan'' | _ \<Rightarrow> py_str L v)"

text \<open>
  \<open>Series.str.contains(pat, case=..., na=False)\<close>: the pattern is a regular expression.
  A pattern without metacharacters matches as a substring (after lower-casing both
  sides when case is ignored); any other pattern goes to the regex engine.
\<close>

definition str_contains :: "pylib \<Rightarrow> bool \<Rightarrow> string \<Rightarrow> (string \<Rightarrow> bool) option" where
  "str_contains L icase pat =
     (if is_literal pat
      then Some (\<lambda>s. if icase then is_substr (lower pat) (lower s) else is_substr pat s)
      else re_compile L icase pat)"

text \<open>The four categorical filter keys and the column each one reads.\<close>

datatype fkey = Report | Category | Merchant | Paid

fun column :: "fkey \<Rightarrow> expense \<Rightarrow> cell" where
  "column Report r = report_name r"
| "column Category r = expense_category r"
| "column Merchant r = merchant_name r"
| "column Paid r = paid_through r"

text \<open>
  \<open>update_combos\<close>, lines 856-861: \<open>d[d[col] == val]\<close>, where \<open>val\<close> is the text of the
  variable. Only a cell that is a text can equal it; a number never does.
\<close>

definition combo_pred :: "fkey \<Rightarrow> string \<Rightarrow> expense \<Rightarrow> bool" where
  "combo_pred k val r = (column k r = Txt val)"

text \<open>
  \<open>analyze\<close>, lines 1020-1025: \<open>d[d[col].astype(str).str.contains(val, case=False, na=False)]\<close>;
  \<open>None\<close> when the pattern does not compile.
\<close>

definition query_pred :: "pylib \<Rightarrow> fkey \<Rightarrow> string \<Rightarrow> (expense \<Rightarrow> bool) option" where
  "query_pred L k val =
     map_option (\<lambda>m. (\<lambda>r. m (astype_str L (column k r)))) (str_contains L True val)"

section \<open>The query: \<open>analyze\<close>\<close>

definition bindE :: "error + 'a \<Rightarrow> ('a \<Rightarrow> error + 'b) \<Rightarrow> error + 'b" where
  "bindE m f = (case m of Inl e \<Rightarrow> Inl e | Inr x \<Rightarrow> f x)"

definition guarded :: "bool \<Rightarrow> ('a \<Rightarrow> error + 'a) \<Rightarrow> 'a \<Rightarrow> error + 'a" where
  "guarded b f d = (if b then f d else Inr d)"

text \<open>\<open>sels\<close> holds a key exactly when its variable is not \<open>All\<close>.\<close>

definition active :: "string \<Rightarrow> bool" where
  "active v = (v \<noteq> ''All'')"

text \<open>\<open>self.df.dropna(subset=['Expense Date'])\<close>\<close>

definition dropna_date :: "expense list \<Rightarrow> expense list" where
  "dropna_date rows = filter (\<lambda>r. expense_date r \<noteq> None) rows"

definition year_is :: "int \<Rightarrow> expense \<Rightarrow> bool" where
  "year_is y r = (case expense_date r of Some d \<Rightarrow> int (year d) = y | None \<Rightarrow> False)"

definition month_is :: "int \<Rightarrow> expense \<Rightarrow> bool" where
  "month_is m r = (case expense_date r of Some d \<Rightarrow> int (month d) = m | None \<Rightarrow> False)"

definition by_contains :: "pylib \<Rightarrow> fkey \<Rightarrow> string \<Rightarrow> expense list \<Rightarrow> error + expense list" where
  "by_contains L k val d =
     (case query_pred L k val of None \<Rightarrow> Inl ReError | Some p \<Rightarrow> Inr (filter p d))"

text \<open>\<open>d[d['Expense Date'].dt.year == int(val)]\<close>: \<open>int\<close> may raise ValueError.\<close>

definition by_year :: "pylib \<Rightarrow> string \<Rightarrow> expense list \<Rightarrow> error + expense list" where
  "by_year L val d =
     (case py_int L val of None \<Rightarrow> Inl ValueError | Some y \<Rightarrow> Inr (filter (year_is y) d))"

definition by_month :: "pylib \<Rightarrow> string \<Rightarrow> expense list \<Rightarrow> error + expense list" where
  "by_month L val d =
     (case py_int L val of None \<Rightarrow> Inl ValueError | Some m \<Rightarrow> Inr (filter (month_is m) d))"

text \<open>\<open>d[d['Expense Description'].astype(str).str.lower().str.contains(desc, na=False)]\<close>\<close>

definition desc_pred :: "pylib \<Rightarrow> (string \<Rightarrow> bool) \<Rightarrow> expense \<Rightarrow> bool" where
  "desc_pred L m r = m (lower (astype_str L (expense_description r)))"

definition by_desc :: "pylib \<Rightarrow> string \<Rightarrow> expense list \<Rightarrow> error + expense list" where
  "by_desc L desc d =
     (case str_contains L False desc of None \<Rightarrow> Inl ReError
      | Some m \<Rightarrow> Inr (filter (desc_pred L m) d))"

text \<open>Lines 1020-1026, in the order of the source; the first exception ends the call.\<close>

definition apply_filters :: "pylib \<Rightarrow> filters \<Rightarrow> expense list \<Rightarrow> error + expense list" where
  "apply_filters L f d0 =
     bindE (guarded (active (report_var f)) (by_contains L Report (report_var f)) d0) (\<lambda>d1.
     bindE (guarded (active (year_var f)) (by_year L (year_var f)) d1) (\<lambda>d2.
     bindE (guarded (active (month_var f)) (by_month L (month_var f)) d2) (\<lambda>d3.
     bindE (guarded (active (category_var f)) (by_contains L Category (category_var f)) d3) (\<lambda>d4.
     bindE (guarded (active (merchant_var f)) (by_contains L Merchant (merchant_var f)) d4) (\<lambda>d5.
     bindE (guarded (active (paid_var f)) (by_contains L Paid (paid_var f)) d5) (\<lambda>d6.
     guarded (lower (strip (desc_var f)) \<noteq> []) (by_desc L (lower (strip (desc_var f)))) d6))))))"

text \<open>
  A range entry is absent (no key, or blank text), or its conversion raises, or it
  gives a value.
\<close>

datatype 'a bound = Absent | Malformed | Bound 'a

text \<open>\<open>self.filters.get(k, tk.StringVar()).get().strip()\<close>, then \<open>pd.to_datetime\<close> if not empty.\<close>

definition date_bnd :: "pylib \<Rightarrow> string option \<Rightarrow> date option bound" where
  "date_bnd L e =
     (let s = strip (case e of None \<Rightarrow> [] | Some v \<Rightarrow> v)
      in if s = [] then Absent
         else (case to_datetime L s of Inl _ \<Rightarrow> Malformed | Inr t \<Rightarrow> Bound t))"

text \<open>\<open>get_float\<close>, lines 1037-1040.\<close>

definition get_float :: "pylib \<Rightarrow> string option \<Rightarrow> rat bound" where
  "get_float L e =
     (case e of None \<Rightarrow> Absent
      | Some v \<Rightarrow>
          (let val = filter (\<lambda>c. c \<noteq> CHR '','') (strip v)
           in if val = [] then Absent
              else (case py_float L val of None \<Rightarrow> Malformed | Some x \<Rightarrow> Bound x)))"

text \<open>A comparison with NaT is false on every row.\<close>

definition ge_date :: "date option \<Rightarrow> expense \<Rightarrow> bool" where
  "ge_date t r = (case (expense_date r, t) of (Some x, Some b) \<Rightarrow> b \<le> x | _ \<Rightarrow> False)"

definition le_date :: "date option \<Rightarrow> expense \<Rightarrow> bool" where
  "le_date t r = (case (expense_date r, t) of (Some x, Some b) \<Rightarrow> x \<le> b | _ \<Rightarrow> False)"

fun narrow :: "'a bound \<Rightarrow> ('a \<Rightarrow> expense \<Rightarrow> bool) \<Rightarrow> expense list \<Rightarrow> expense list" where
  "narrow (Bound v) p d = filter (p v) d"
| "narrow _ p d = d"

text \<open>
  The block under \<open>try\<close>, lines 1029-1053. An exception leaves \<open>d\<close> as the last
  assignment before it made it; the four amount entries are all converted before the
  first amount filter is applied.
\<close>

definition advanced :: "pylib \<Rightarrow> filters \<Rightarrow> expense list \<Rightarrow> expense list" where
  "advanced L f d0 =
     (let s = date_bnd L (date_start f) in
      if s = Malformed then d0 else
      let d1 = narrow s ge_date d0;
          e = date_bnd L (date_end f) in
      if e = Malformed then d1 else
      let d2 = narrow e le_date d1;
          emin = get_float L (exp_min f);
          emax = get_float L (exp_max f);
          imin = get_float L (inc_min f);
          imax = get_float L (inc_max f) in
      if emin = Malformed \<or> emax = Malformed \<or> imin = Malformed \<or> imax = Malformed then d2
      else narrow imax (\<lambda>b r. income_amount r \<le> b)
             (narrow imin (\<lambda>b r. b \<le> income_amount r)
               (narrow emax (\<lambda>b r. expense_amount r \<le> b)
                 (narrow emin (\<lambda>b r. b \<le> expense_amount r) d2))))"

text \<open>The frame \<open>d\<close> that reaches the test \<open>d.empty\<close>.\<close>

definition matched :: "pylib \<Rightarrow> filters \<Rightarrow> expense list \<Rightarrow> error + expense list" where
  "matched L f rows =
     bindE (apply_filters L f (dropna_date rows)) (\<lambda>d. Inr (advanced L f d))"

definition with_bal :: "expense \<Rightarrow> frow" where
  "with_bal r = \<lparr>row = r, bal = income_amount r - expense_amount r\<rparr>"

text \<open>
  The summary table, lines 1072-1075: \<open>groupby\<close> on (category, merchant) leaves out the
  rows with NaN in a key column (\<open>dropna=True\<close>) and gives one row per key, the keys in
  sorted order (numbers before texts). \<open>Count\<close> is the \<open>size\<close> of the group; \<open>Inc\<close>,
  \<open>Exp\<close> and \<open>Total\<close> are the library's sums of the columns Income Amount, Expense
  Amount and \<open>Bal\<close> over the group.
\<close>

definition gkey :: "frow \<Rightarrow> cell \<times> cell" where
  "gkey r = (expense_category (row r), merchant_name (row r))"

definition has_key :: "frow \<Rightarrow> bool" where
  "has_key r = (expense_category (row r) \<noteq> NaN \<and> merchant_name (row r) \<noteq> NaN)"

fun cell_ord :: "cell \<Rightarrow> nat \<times> rat \<times> date \<times> string" where
  "cell_ord (Num q) = (0, q, (0, 0, 0), [])"
| "cell_ord (Day t) = (1, 0, t, [])"
| "cell_ord (Txt s) = (2, 0, (0, 0, 0), s)"
| "cell_ord NaN = (3, 0, (0, 0, 0), [])"

definition pair_ord :: "cell \<times> cell \<Rightarrow> (nat \<times> rat \<times> date \<times> string) \<times> (nat \<times> rat \<times> date \<times> string)" where
  "pair_ord k = (cell_ord (fst k), cell_ord (snd k))"

definition group_row :: "pylib \<Rightarrow> frow list \<Rightarrow> cell \<times> cell \<Rightarrow> grp" where
  "group_row L d k =
     (let g = filter (\<lambda>r. gkey r = k) d
      in \<lparr>g_category = fst k, g_merchant = snd k, g_count = length g,
          g_inc = grp_sum L (map (\<lambda>r. income_amount (row r)) g),
          g_exp = grp_sum L (map (\<lambda>r. expense_amount (row r)) g),
          g_total = grp_sum L (map bal g)\<rparr>)"

definition sum_grp :: "pylib \<Rightarrow> frow list \<Rightarrow> grp list" where
  "sum_grp L d =
     map (group_row L d) (sort_key pair_ord (remdups (map gkey (filter has_key d))))"

text \<open>
  \<open>analyze\<close>. \<open>Inl e\<close>: the exception \<open>e\<close> leaves the call, and the state is as it was
  (nothing is assigned before the filters have run). The labels and trees hold the
  values shown, not their formatted text.
\<close>

definition analyze :: "pylib \<Rightarrow> app \<Rightarrow> error + app" where
  "analyze L st =
     (case df st of None \<Rightarrow> Inr st
      | Some rows \<Rightarrow>
          (case matched L (filters st) rows of Inl e \<Rightarrow> Inl e
           | Inr d \<Rightarrow>
               if d = [] then Inr (st\<lparr>dialogs := dialogs st @ [ShowInfo ''No records found.'']\<rparr>)
               else
                 (let d' = sort_values L (map with_bal d) in
                  Inr (st\<lparr>filtered_df := Some d',
                          lbl_records := Some (length d'),
                          lbl_inc := Some (col_sum L (map (\<lambda>r. income_amount (row r)) d')),
                          lbl_exp := Some (col_sum L (map (\<lambda>r. expense_amount (row r)) d')),
                          lbl_bal := Some (col_sum L (map (\<lambda>r. income_amount (row r)) d')
                                           - col_sum L (map (\<lambda>r. expense_amount (row r)) d')),
                          sum_tree := sum_grp L d',
                          tree := d'\<rparr>))))"

text \<open>
  \<open>export_csv\<close>: the path chosen in the file dialog (\<open>None\<close>: cancelled) and the table
  written, each row with its date as text.
\<close>

definition export_csv :: "string option \<Rightarrow> app \<Rightarrow> (string \<times> (string option \<times> frow) list) option" where
  "export_csv path st =
     (case filtered_df st of None \<Rightarrow> None
      | Some d \<Rightarrow>
          (case path of None \<Rightarrow> None
           | Some p \<Rightarrow>
               if p = [] then None
               else Some (p, map (\<lambda>r. (map_option strftime_ymd (expense_date (row r)), r)) d)))"

section \<open>The filter domains: \<open>update_combos\<close>\<close>

text \<open>
  Lines 855-861: the loop over \<open>sels.items()\<close>, in the insertion order of
  \<open>self.filters\<close> (report, year, month, category, merchant, paid; the key \<open>desc\<close> has no
  branch).
\<close>

definition by_equal :: "fkey \<Rightarrow> string \<Rightarrow> expense list \<Rightarrow> error + expense list" where
  "by_equal k val d = Inr (filter (combo_pred k val) d)"

definition combo_filters :: "pylib \<Rightarrow> filters \<Rightarrow> expense list \<Rightarrow> error + expense list" where
  "combo_filters L f d0 =
     bindE (guarded (active (report_var f)) (by_equal Report (report_var f)) d0) (\<lambda>d1.
     bindE (guarded (active (year_var f)) (by_year L (year_var f)) d1) (\<lambda>d2.
     bindE (guarded (active (month_var f)) (by_month L (month_var f)) d2) (\<lambda>d3.
     bindE (guarded (active (category_var f)) (by_equal Category (category_var f)) d3) (\<lambda>d4.
     bindE (guarded (active (merchant_var f)) (by_equal Merchant (merchant_var f)) d4) (\<lambda>d5.
     guarded (active (paid_var f)) (by_equal Paid (paid_var f)) d5)))))"

text \<open>
  The helper \<open>update(key, values)\<close> on a list of texts (year, month): the new text of
  the variable and the new value list of the combobox.
\<close>

definition update :: "string \<Rightarrow> string list \<Rightarrow> string \<times> string list" where
  "update cur vals =
     (let vs = ''All'' # sort (remdups vals)
      in (if cur \<noteq> ''All'' \<and> cur \<notin> set vs then ''All'' else cur, vs))"

text \<open>
  \<open>sorted(list(values))\<close> on the values of a column: texts are ordered among
  themselves, and so are numbers and dates; a list that mixes the kinds raises
  TypeError (\<open>None\<close>).
\<close>

definition is_txt :: "cell \<Rightarrow> bool" where
  "is_txt c = (case c of Txt s \<Rightarrow> True | _ \<Rightarrow> False)"

definition is_num :: "cell \<Rightarrow> bool" where
  "is_num c = (case c of Num q \<Rightarrow> True | _ \<Rightarrow> False)"

definition is_day :: "cell \<Rightarrow> bool" where
  "is_day c = (case c of Day t \<Rightarrow> True | _ \<Rightarrow> False)"

definition py_sorted :: "cell list \<Rightarrow> cell list option" where
  "py_sorted vs =
     (if list_all is_txt vs \<or> list_all is_num vs \<or> list_all is_day vs
      then Some (sort_key cell_ord vs) else None)"

text \<open>\<open>curr in combo['values']\<close>: among texts it is membership.\<close>

definition in_values :: "pylib \<Rightarrow> string \<Rightarrow> cell list \<Rightarrow> bool" where
  "in_values L cur vs = (if list_all is_txt vs then Txt cur \<in> set vs else tk_in L cur vs)"

text \<open>
  The helper \<open>update(key, values)\<close> on the values of a column that is read as it is;
  \<open>None\<close> when \<open>sorted\<close> raises, before anything is assigned.
\<close>

definition update_cells :: "pylib \<Rightarrow> string \<Rightarrow> cell list \<Rightarrow> (string \<times> cell list) option" where
  "update_cells L cur vals =
     (case py_sorted (remdups vals) of None \<Rightarrow> None
      | Some s \<Rightarrow>
          (let vs = Txt ''All'' # s
           in Some (if cur \<noteq> ''All'' \<and> \<not> in_values L cur vs then ''All'' else cur, vs)))"

text \<open>\<open>d[col].dropna().unique()\<close>; \<open>update\<close> removes the duplicates.\<close>

definition values_of :: "fkey \<Rightarrow> expense list \<Rightarrow> cell list" where
  "values_of k d = filter (\<lambda>c. c \<noteq> NaN) (map (column k) d)"

definition year_values :: "expense list \<Rightarrow> string list" where
  "year_values d = List.map_filter (\<lambda>r. map_option (\<lambda>t. str_nat (year t)) (expense_date r)) d"

definition month_values :: "expense list \<Rightarrow> string list" where
  "month_values d = List.map_filter (\<lambda>r. map_option (\<lambda>t. fmt_02d (month t)) (expense_date r)) d"

fun var_of :: "fkey \<Rightarrow> filters \<Rightarrow> string" where
  "var_of Report f = report_var f"
| "var_of Category f = category_var f"
| "var_of Merchant f = merchant_var f"
| "var_of Paid f = paid_var f"

fun set_combo :: "fkey \<Rightarrow> string \<times> cell list \<Rightarrow> filters \<Rightarrow> filters" where
  "set_combo Report p f = f\<lparr>report_var := fst p, report_combo := snd p\<rparr>"
| "set_combo Category p f = f\<lparr>category_var := fst p, category_combo := snd p\<rparr>"
| "set_combo Merchant p f = f\<lparr>merchant_var := fst p, merchant_combo := snd p\<rparr>"
| "set_combo Paid p f = f\<lparr>paid_var := fst p, paid_combo := snd p\<rparr>"

text \<open>Lines 876 and 879-881: \<open>update(key, d[col].dropna().unique())\<close>.\<close>

definition update_key :: "pylib \<Rightarrow> fkey \<Rightarrow> expense list \<Rightarrow> filters \<Rightarrow> error + filters" where
  "update_key L k d f =
     (case update_cells L (var_of k f) (values_of k d) of
        None \<Rightarrow> Inl TypeError | Some p \<Rightarrow> Inr (set_combo k p f))"

text \<open>Lines 877-878: the years and the months of the dates of \<open>d\<close>.\<close>

definition update_dates :: "expense list \<Rightarrow> filters \<Rightarrow> filters" where
  "update_dates d f =
     f\<lparr>year_var := fst (update (year_var f) (year_values d)),
       year_combo := snd (update (year_var f) (year_values d)),
       month_var := fst (update (month_var f) (month_values d)),
       month_combo := snd (update (month_var f) (month_values d))\<rparr>"

text \<open>
  Lines 876-881, in the order of the source. An exception leaves the comboboxes
  updated so far as they are.
\<close>

definition refresh :: "pylib \<Rightarrow> expense list \<Rightarrow> filters \<Rightarrow> filters \<times> error option" where
  "refresh L d f0 =
     (case update_key L Report d f0 of Inl e \<Rightarrow> (f0, Some e)
      | Inr f1 \<Rightarrow>
      let f3 = update_dates d f1 in
      case update_key L Category d f3 of Inl e \<Rightarrow> (f3, Some e)
      | Inr f4 \<Rightarrow>
      case update_key L Merchant d f4 of Inl e \<Rightarrow> (f4, Some e)
      | Inr f5 \<Rightarrow>
      case update_key L Paid d f5 of Inl e \<Rightarrow> (f5, Some e)
      | Inr f6 \<Rightarrow> (f6, None))"

text \<open>
  \<open>update_combos\<close>: the new state and the exception that left the call, if any
  (\<open>int(val)\<close> in the loop, before anything is written, or \<open>sorted\<close> in \<open>update\<close>);
  \<open>finally\<close> puts \<open>updating_combos\<close> back to False.
\<close>

definition update_combos :: "pylib \<Rightarrow> app \<Rightarrow> app \<times> error option" where
  "update_combos L st =
     (case df st of None \<Rightarrow> (st, None)
      | Some rows \<Rightarrow>
          if updating_combos st then (st, None)
          else (case combo_filters L (filters st) (dropna_date rows) of
                  Inl e \<Rightarrow> (st, Some e)
                | Inr d \<Rightarrow>
                    (st\<lparr>filters := fst (refresh L d (filters st))\<rparr>,
                     snd (refresh L d (filters st)))))"

section \<open>Adding and deleting records\<close>

text \<open>The texts of the record dialog's entries.\<close>

record entries =
  e_date :: string
  e_description :: string
  e_category :: string
  e_merchant :: string
  e_paid :: string
  e_income :: string
  e_expense :: string

text \<open>\<open>self.df['original_index'].max() + 1 if not self.df.empty else 0\<close>\<close>

definition new_idx :: "expense list \<Rightarrow> int" where
  "new_idx rows = (if rows = [] then 0 else Max (set (map original_index rows)) + 1)"

text \<open>\<open>pd.concat(..., ignore_index=True)\<close> numbers the rows of the result from 0.\<close>

definition ignore_index :: "expense list \<Rightarrow> expense list" where
  "ignore_index rows = map (\<lambda>(i, r). r\<lparr>idx := int i\<rparr>) (enumerate 0 rows)"

definition row_data :: "entries \<Rightarrow> date option \<Rightarrow> rat \<Rightarrow> rat \<Rightarrow> int \<Rightarrow> expense" where
  "row_data e dt inc ex i =
     \<lparr>idx = 0, original_index = i, report_name = Txt ''Manual Entry'', expense_date = dt,
      expense_amount = ex, income_amount = inc, expense_description = Txt (e_description e),
      expense_category = Txt (e_category e), merchant_name = Txt (e_merchant e),
      paid_through = Txt (e_paid e)\<rparr>"

definition say :: "dialog \<Rightarrow> app \<Rightarrow> app" where
  "say m st = st\<lparr>dialogs := dialogs st @ [m]\<rparr>"

text \<open>
  \<open>save\<close> of the record dialog in mode \<open>add\<close>, lines 1536-1588. Every exception is
  caught and shown; one raised by \<open>analyze\<close> comes after the row has been appended.
\<close>

definition save_add :: "pylib \<Rightarrow> entries \<Rightarrow> app \<Rightarrow> app" where
  "save_add L e st =
     (case to_datetime L (e_date e) of
        Inl _ \<Rightarrow> say (ShowError ''Validation Error'') st
      | Inr dt \<Rightarrow>
          (case py_float L (e_income e) of
             None \<Rightarrow> say (ShowError ''Validation Error'') st
           | Some inc \<Rightarrow>
               (case py_float L (e_expense e) of
                  None \<Rightarrow> say (ShowError ''Validation Error'') st
                | Some ex \<Rightarrow>
                    (case df st of
                       None \<Rightarrow> say (ShowError ''Error'') st
                     | Some rows \<Rightarrow>
                         (let st1 = say (ShowInfo ''Record added.'')
                                      (st\<lparr>df := Some (ignore_index
                                                (rows @ [row_data e dt inc ex (new_idx rows)]))\<rparr>)
                          in case analyze L st1 of
                               Inl ValueError \<Rightarrow> say (ShowError ''Validation Error'') st1
                             | Inl _ \<Rightarrow> say (ShowError ''Error'') st1
                             | Inr st2 \<Rightarrow> st2\<lparr>btn_save_shown := True\<rparr>)))))"

text \<open>
  The loop of \<open>delete_record\<close>, lines 1435-1451, over the last column (the ID) of each
  selected item of the tree: \<open>idx in self.df.index\<close> and \<open>self.df.drop(idx)\<close> go by the
  index label.
\<close>

fun drop_selected :: "int list \<Rightarrow> expense list \<Rightarrow> nat \<Rightarrow> expense list \<times> nat" where
  "drop_selected [] rows n = (rows, n)"
| "drop_selected (i # sel) rows n =
     (if i \<in> set (map idx rows)
      then drop_selected sel (filter (\<lambda>r. idx r \<noteq> i) rows) (n + 1)
      else drop_selected sel rows n)"

text \<open>
  \<open>delete_record\<close>: the IDs of the selected items, the answer to the confirmation, and
  the state. The result is the new state and the exception that left the call, if
  \<open>analyze\<close> raised one.
\<close>

definition delete_record :: "pylib \<Rightarrow> int list \<Rightarrow> bool \<Rightarrow> app \<Rightarrow> app \<times> error option" where
  "delete_record L selected_items yes st =
     (case df st of None \<Rightarrow> (st, None)
      | Some rows \<Rightarrow>
          if \<not> edit_mode st then (st, None)
          else if selected_items = []
          then (say (ShowWarning ''Please select a record to delete.'') st, None)
          else if \<not> yes then (st, None)
          else
            (let res = drop_selected selected_items rows 0;
                 deleted_count = snd res;
                 st1 = st\<lparr>df := Some (fst res)\<rparr>
             in if deleted_count > 0
                then (case analyze L st1 of
                        Inl e \<Rightarrow> (st1, Some e)
                      | Inr st2 \<Rightarrow>
                          (say (ShowInfo (str_nat deleted_count @ '' record(s) deleted.'')) st2, None))
                else (say (ShowWarning ''Could not delete records.'') st1, None)))"

section \<open>An instance of the library\<close>

text \<open>
  Concrete library functions, for evaluating the model on examples: ISO dates
  \<open>YYYY-MM-DD\<close>, unsigned decimal numerals, a stable descending insertion sort, exact
  sums, numbers written as integers. No example below uses a pattern with a
  metacharacter; this instance rejects them.
\<close>

definition digit_of :: "char \<Rightarrow> nat option" where
  "digit_of c = map_of (zip ''0123456789'' [0, 1, 2, 3, 4, 5, 6, 7, 8, 9]) c"

fun digits_val :: "string \<Rightarrow> nat \<Rightarrow> nat option" where
  "digits_val [] acc = Some acc"
| "digits_val (c # cs) acc =
     (case digit_of c of None \<Rightarrow> None | Some k \<Rightarrow> digits_val cs (10 * acc + k))"

definition parse_nat :: "string \<Rightarrow> nat option" where
  "parse_nat s = (if s = [] then None else digits_val s 0)"

definition iso_date :: "string \<Rightarrow> error + date option" where
  "iso_date s =
     (if length s = 10 \<and> s ! 4 = CHR ''-'' \<and> s ! 7 = CHR ''-''
      then (case (parse_nat (take 4 s), parse_nat (take 2 (drop 5 s)), parse_nat (drop 8 s)) of
              (Some y, Some m, Some d) \<Rightarrow>
                if 1 \<le> m \<and> m \<le> 12 \<and> 1 \<le> d \<and> d \<le> 31 then Inr (Some (y, m, d))
                else Inl ValueError
            | _ \<Rightarrow> Inl ValueError)
      else Inl ValueError)"

definition dec_float :: "string \<Rightarrow> rat option" where
  "dec_float s =
     (let a = takeWhile (\<lambda>c. c \<noteq> CHR ''.'') s;
          b = drop 1 (dropWhile (\<lambda>c. c \<noteq> CHR ''.'') s)
      in case (parse_nat a, if b = [] then Some 0 else parse_nat b) of
           (Some i, Some f) \<Rightarrow> Some (of_nat i + of_nat f / 10 ^ length b)
         | _ \<Rightarrow> None)"

definition dec_int :: "string \<Rightarrow> int option" where
  "dec_int s = map_option int (parse_nat s)"

fun ins_desc :: "frow \<Rightarrow> frow list \<Rightarrow> frow list" where
  "ins_desc x [] = [x]"
| "ins_desc x (y # ys) = (if date_key y \<le> date_key x then x # y # ys else y # ins_desc x ys)"

definition stable_desc :: "frow list \<Rightarrow> frow list" where
  "stable_desc d = foldr ins_desc d []"

definition int_str :: "cell \<Rightarrow> string" where
  "int_str c = (case c of Num q \<Rightarrow> (if q < 0 then CHR ''-'' # str_nat (nat (- \<lfloor>q\<rfloor>))
                                     else str_nat (nat \<lfloor>q\<rfloor>))
                | Day t \<Rightarrow> strftime_ymd t @ '' 00:00:00''
                | Txt s \<Rightarrow> s | NaN \<Rightarrow> ''nan'')"

definition ref_lib :: pylib where
  "ref_lib = \<lparr>to_datetime = iso_date, py_float = dec_float, py_int = dec_int,
              re_compile = (\<lambda>icase pat. None), sort_values = stable_desc,
              py_str = int_str, col_sum = sum_list, grp_sum = sum_list,
              tk_in = (\<lambda>cur vs. cur \<in> set (map int_str vs))\<rparr>"

text \<open>
  What \<open>sort_values\<close> promises: the same rows, in descending order of the date. Which
  algorithm the default \<open>kind='quicksort'\<close> runs, and so the order it gives to rows with
  equal dates, is decided inside the library.
\<close>

definition descending :: "frow list \<Rightarrow> bool" where
  "descending d = sorted_wrt (\<lambda>a b. date_key b \<le> date_key a) d"

definition sorts :: "pylib \<Rightarrow> bool" where
  "sorts L = (\<forall>d. mset (sort_values L d) = mset d \<and> descending (sort_values L d))"

section \<open>Examples and auxiliary notions\<close>

text \<open>What the query's predicate says of one row; \<open>None\<close> when the pattern does not compile.\<close>

definition query_accepts :: "pylib \<Rightarrow> fkey \<Rightarrow> string \<Rightarrow> expense \<Rightarrow> bool option" where
  "query_accepts L k val r = map_option (\<lambda>p. p r) (query_pred L k val)"

definition food_row :: expense where
  "food_row = \<lparr>idx = 0, original_index = 0, report_name = Txt ''Food'',
      expense_date = Some (2024, 1, 15), expense_amount = 30, income_amount = 0,
      expense_description = Txt ''Lunch'', expense_category = Txt ''Food'',
      merchant_name = Txt ''Cafe'', paid_through = Txt ''Cash''\<rparr>"

text \<open>The filters as \<open>create_filter_widgets\<close> leaves them: every variable \<open>All\<close>, no range entry.\<close>

definition no_filters :: filters where
  "no_filters = \<lparr>report_var = ''All'', year_var = ''All'', month_var = ''All'',
      category_var = ''All'', merchant_var = ''All'', paid_var = ''All'', desc_var = [],
      report_combo = [], year_combo = [], month_combo = [], category_combo = [],
      merchant_combo = [], paid_combo = [],
      date_start = None, date_end = None, exp_min = None, exp_max = None,
      inc_min = None, inc_max = None\<rparr>"

definition app_of :: "expense list \<Rightarrow> filters \<Rightarrow> app" where
  "app_of rows f = \<lparr>df = Some rows, filtered_df = None, filters = f, updating_combos = False,
      edit_mode = True, lbl_records = None, lbl_inc = None, lbl_exp = None, lbl_bal = None,
      sum_tree = [], tree = [], btn_save_shown = False, dialogs = []\<rparr>"

definition mk_row :: "int \<Rightarrow> date \<Rightarrow> string \<Rightarrow> string \<Rightarrow> rat \<Rightarrow> rat \<Rightarrow> expense" where
  "mk_row i t cat mer ex inc = \<lparr>idx = i, original_index = i, report_name = Txt ''R1'',
      expense_date = Some t, expense_amount = ex, income_amount = inc,
      expense_description = Txt ''item'', expense_category = Txt cat,
      merchant_name = Txt mer, paid_through = Txt ''Cash''\<rparr>"

text \<open>The key of a row of the summary table.\<close>

definition grp_key :: "grp \<Rightarrow> cell \<times> cell" where
  "grp_key g = (g_category g, g_merchant g)"

text \<open>The state of the example of section 8: Food 30, Food 20, Travel 50, no income.\<close>

definition food_travel :: "expense list" where
  "food_travel = [mk_row 0 (2024, 1, 5) ''Food'' ''Cafe'' 30 0,
                  mk_row 1 (2024, 1, 6) ''Food'' ''Cafe'' 20 0,
                  mk_row 2 (2024, 1, 7) ''Travel'' ''Rail'' 50 0]"

text \<open>
  What \<open>load_file\<close> (lines 981-982, "to prevent dropping in groupby") and the record
  dialog see to: no row has NaN for its category or its merchant.
\<close>

definition keyed :: "expense list \<Rightarrow> bool" where
  "keyed rows = (\<forall>r\<in>set rows. expense_category r \<noteq> NaN \<and> merchant_name r \<noteq> NaN)"

text \<open>
  The sums of the library are exact: no \<open>int64\<close> sum overflows and no \<open>float64\<close> sum is
  rounded.
\<close>

definition exact_sums :: "pylib \<Rightarrow> bool" where
  "exact_sums L = (\<forall>xs. col_sum L xs = sum_list xs \<and> grp_sum L xs = sum_list xs)"

text \<open>
  A state that holds the outputs of an earlier query (one row, Food at Cafe, expense
  30), with a filter that matches no row.
\<close>

definition after_query :: app where
  "after_query = (app_of [food_row] (no_filters\<lparr>category_var := ''Travel''\<rparr>))
      \<lparr>filtered_df := Some [with_bal food_row], lbl_records := Some 1, lbl_inc := Some 0,
       lbl_exp := Some 30, lbl_bal := Some (- 30),
       sum_tree := [\<lparr>g_category = Txt ''Food'', g_merchant = Txt ''Cafe'', g_count = 1,
                     g_inc = 0, g_exp = 30, g_total = - 30\<rparr>],
       tree := [with_bal food_row]\<rparr>"

text \<open>
  "The subset narrowed by all active selections", in the words of the specification:
  \<open>selection_holds\<close> says that a row agrees with every selection that is not \<open>All\<close>
  (its cell is the selected text; the year, the month of its date is the selected
  number), and \<open>narrowed\<close> keeps the rows that have a date and agree.
\<close>

definition selection_holds :: "pylib \<Rightarrow> filters \<Rightarrow> expense \<Rightarrow> bool" where
  "selection_holds L f r =
     ((active (report_var f) \<longrightarrow> report_name r = Txt (report_var f))
      \<and> (active (year_var f) \<longrightarrow>
            (case (py_int L (year_var f), expense_date r) of
               (Some y, Some t) \<Rightarrow> int (fst t) = y | _ \<Rightarrow> False))
      \<and> (active (month_var f) \<longrightarrow>
            (case (py_int L (month_var f), expense_date r) of
               (Some m, Some t) \<Rightarrow> int (fst (snd t)) = m | _ \<Rightarrow> False))
      \<and> (active (category_var f) \<longrightarrow> expense_category r = Txt (category_var f))
      \<and> (active (merchant_var f) \<longrightarrow> merchant_name r = Txt (merchant_var f))
      \<and> (active (paid_var f) \<longrightarrow> paid_through r = Txt (paid_var f)))"

definition narrowed :: "pylib \<Rightarrow> filters \<Rightarrow> expense list \<Rightarrow> expense list" where
  "narrowed L f rows = filter (selection_holds L f) (dropna_date rows)"

text \<open>
  A month "presented as a two-digit string", in the words of the specification: the
  digit of the tens, then the digit of the units.
\<close>

definition digit_char :: "nat \<Rightarrow> char" where
  "digit_char k = char_of (48 + k)"

definition two_digits :: "nat \<Rightarrow> string" where
  "two_digits m = [digit_char (m div 10), digit_char (m mod 10)]"

text \<open>The months that occur in the dates of a list of rows.\<close>

definition months_of :: "expense list \<Rightarrow> nat list" where
  "months_of d = List.map_filter (\<lambda>r. map_option month (expense_date r)) d"

text \<open>The month of a pandas \<open>Timestamp\<close> is one of 1 to 12.\<close>

definition valid_months :: "expense list \<Rightarrow> bool" where
  "valid_months rows =
     (\<forall>r\<in>set rows. case expense_date r of None \<Rightarrow> True
                                          | Some t \<Rightarrow> 1 \<le> month t \<and> month t \<le> 12)"

text \<open>The store of the example of section 8: one record in January 2024, one in February 2025.\<close>

definition jan_feb :: "expense list" where
  "jan_feb = [mk_row 0 (2024, 1, 10) ''C1'' ''M1'' 5 0, mk_row 1 (2025, 2, 10) ''C2'' ''M2'' 7 0]"

text \<open>The same two records with numerals for report names, read as numbers.\<close>

definition numbered :: "expense list" where
  "numbered = [(mk_row 0 (2024, 1, 10) ''C1'' ''M1'' 5 0)\<lparr>report_name := Num 2024\<rparr>,
               (mk_row 1 (2025, 2, 10) ''C2'' ''M2'' 7 0)\<lparr>report_name := Num 2025\<rparr>]"

text \<open>One record with expense 50 and income 0, for the examples on range bounds.\<close>

definition fifty :: "expense list" where
  "fifty = [mk_row 0 (2024, 1, 5) ''Food'' ''Cafe'' 50 0]"

text \<open>
  Three records with expense 50: Food in December 2023, Food in January 2024, Travel
  in February 2024.
\<close>

definition dec_jan_feb :: "expense list" where
  "dec_jan_feb = [mk_row 0 (2023, 12, 1) ''Food'' ''Cafe'' 50 0,
                  mk_row 1 (2024, 1, 5) ''Food'' ''Cafe'' 50 0,
                  mk_row 2 (2024, 2, 7) ''Travel'' ''Rail'' 50 0]"

text \<open>
  "All other filters are well-formed": every active categorical pattern and the
  description pattern compile, and the year and month selections convert with \<open>int\<close>.
\<close>

definition text_ok :: "pylib \<Rightarrow> filters \<Rightarrow> bool" where
  "text_ok L f =
     ((active (report_var f) \<longrightarrow> str_contains L True (report_var f) \<noteq> None)
      \<and> (active (year_var f) \<longrightarrow> py_int L (year_var f) \<noteq> None)
      \<and> (active (month_var f) \<longrightarrow> py_int L (month_var f) \<noteq> None)
      \<and> (active (category_var f) \<longrightarrow> str_contains L True (category_var f) \<noteq> None)
      \<and> (active (merchant_var f) \<longrightarrow> str_contains L True (merchant_var f) \<noteq> None)
      \<and> (active (paid_var f) \<longrightarrow> str_contains L True (paid_var f) \<noteq> None)
      \<and> (lower (strip (desc_var f)) \<noteq> [] \<longrightarrow>
            str_contains L False (lower (strip (desc_var f))) \<noteq> None))"

text \<open>
  The predicates of a filter specification, in the words of section 4.2: the
  categorical and text filters (with year and month), and the range filters.
\<close>

definition satisfies_text :: "pylib \<Rightarrow> filters \<Rightarrow> expense \<Rightarrow> bool" where
  "satisfies_text L f r =
     ((active (report_var f) \<longrightarrow> query_accepts L Report (report_var f) r = Some True)
      \<and> (active (year_var f) \<longrightarrow>
            (case py_int L (year_var f) of Some y \<Rightarrow> year_is y r | None \<Rightarrow> False))
      \<and> (active (month_var f) \<longrightarrow>
            (case py_int L (month_var f) of Some m \<Rightarrow> month_is m r | None \<Rightarrow> False))
      \<and> (active (category_var f) \<longrightarrow> query_accepts L Category (category_var f) r = Some True)
      \<and> (active (merchant_var f) \<longrightarrow> query_accepts L Merchant (merchant_var f) r = Some True)
      \<and> (active (paid_var f) \<longrightarrow> query_accepts L Paid (paid_var f) r = Some True)
      \<and> (lower (strip (desc_var f)) \<noteq> [] \<longrightarrow>
            (case str_contains L False (lower (strip (desc_var f))) of
               Some m \<Rightarrow> desc_pred L m r | None \<Rightarrow> False)))"

definition in_bound :: "'a bound \<Rightarrow> ('a \<Rightarrow> expense \<Rightarrow> bool) \<Rightarrow> expense \<Rightarrow> bool" where
  "in_bound b p r = (case b of Bound v \<Rightarrow> p v r | _ \<Rightarrow> True)"

definition satisfies_ranges :: "pylib \<Rightarrow> filters \<Rightarrow> expense \<Rightarrow> bool" where
  "satisfies_ranges L f r =
     (in_bound (date_bnd L (date_start f)) ge_date r
      \<and> in_bound (date_bnd L (date_end f)) le_date r
      \<and> in_bound (get_float L (exp_min f)) (\<lambda>b r. b \<le> expense_amount r) r
      \<and> in_bound (get_float L (exp_max f)) (\<lambda>b r. expense_amount r \<le> b) r
      \<and> in_bound (get_float L (inc_min f)) (\<lambda>b r. b \<le> income_amount r) r
      \<and> in_bound (get_float L (inc_max f)) (\<lambda>b r. income_amount r \<le> b) r)"

definition well_formed :: "pylib \<Rightarrow> filters \<Rightarrow> bool" where
  "well_formed L f =
     (date_bnd L (date_start f) \<noteq> Malformed \<and> date_bnd L (date_end f) \<noteq> Malformed
      \<and> get_float L (exp_min f) \<noteq> Malformed \<and> get_float L (exp_max f) \<noteq> Malformed
      \<and> get_float L (inc_min f) \<noteq> Malformed \<and> get_float L (inc_max f) \<noteq> Malformed)"

text \<open>The rows that a call of \<open>analyze\<close> leaves in \<open>filtered_df\<close>.\<close>

definition result_of :: "error + app \<Rightarrow> frow list" where
  "result_of x = (case x of Inl e \<Rightarrow> []
                  | Inr st \<Rightarrow> (case filtered_df st of None \<Rightarrow> [] | Some d \<Rightarrow> d))"

text \<open>
  Sequences of the two mutations: \<open>Add e\<close> is \<open>save\<close> of the record dialog in mode
  \<open>add\<close> with the entries \<open>e\<close>; \<open>Remove ids\<close> is \<open>delete_record\<close>, confirmed, on the
  tree items whose ID column holds \<open>ids\<close>.
\<close>

datatype op = Add entries | Remove "int list"

fun step :: "pylib \<Rightarrow> app \<Rightarrow> op \<Rightarrow> app" where
  "step L st (Add e) = save_add L e st"
| "step L st (Remove ids) = fst (delete_record L ids True st)"

definition run :: "pylib \<Rightarrow> app \<Rightarrow> op list \<Rightarrow> app" where
  "run L st ops = foldl (step L) st ops"

definition store :: "app \<Rightarrow> expense list" where
  "store st = (case df st of None \<Rightarrow> [] | Some rows \<Rightarrow> rows)"

text \<open>A store of two records as \<open>load_file\<close> leaves it (index and \<open>original_index\<close> 0, 1).\<close>

definition two_rows :: "expense list" where
  "two_rows = [mk_row 0 (2024, 1, 5) ''Food'' ''Cafe'' 30 0,
               mk_row 1 (2024, 2, 6) ''Travel'' ''Rail'' 50 0]"

definition taxi :: entries where
  "taxi = \<lparr>e_date = ''2024-03-01'', e_description = ''Taxi'', e_category = ''Travel'',
           e_merchant = ''Cab'', e_paid = ''Card'', e_income = ''0'', e_expense = ''12.50''\<rparr>"

text \<open>The store after deleting the record with ID 0 and adding one record.\<close>

definition after_delete_add :: app where
  "after_delete_add = run ref_lib (app_of two_rows no_filters) [Remove [0], Add taxi]"

text \<open>No two live records share a stable id.\<close>

definition ids_distinct :: "app \<Rightarrow> bool" where
  "ids_distinct st = (\<exists>rows. df st = Some rows \<and> distinct (map original_index rows))"

section \<open>Loading a file: \<open>load_file\<close>\<close>

text \<open>
  Before \<open>load_file\<close> has normalised it, \<open>self.df\<close> is a table as the reader delivered
  it: named columns of cells of any kind. \<open>load_file\<close> is modelled on such tables, with
  the part of the state it writes.
\<close>

record frame =
  nrows :: nat
  cols :: "(string \<times> cell list) list"

definition has_col :: "frame \<Rightarrow> string \<Rightarrow> bool" where
  "has_col f c = (c \<in> set (map fst (cols f)))"

text \<open>\<open>df[c]\<close>: \<open>None\<close> is KeyError.\<close>

definition get_col :: "frame \<Rightarrow> string \<Rightarrow> cell list option" where
  "get_col f c = map_of (cols f) c"

text \<open>\<open>df[c] = values\<close>\<close>

definition set_col :: "string \<Rightarrow> cell list \<Rightarrow> frame \<Rightarrow> frame" where
  "set_col c vs f =
     f\<lparr>cols := (if has_col f c then map (\<lambda>p. if fst p = c then (c, vs) else p) (cols f)
                else cols f @ [(c, vs)])\<rparr>"

definition drop_col :: "string \<Rightarrow> frame \<Rightarrow> frame" where
  "drop_col c f = f\<lparr>cols := filter (\<lambda>p. fst p \<noteq> c) (cols f)\<rparr>"

definition fillna :: "cell \<Rightarrow> cell \<Rightarrow> cell" where
  "fillna v x = (if x = NaN then v else x)"

text \<open>
  The calls of the pandas readers on the chosen file, and what the environment gives:
  \<^item> \<open>reader\<close>: the outcome of each read of the file (\<open>Inl\<close>: it raises);
  \<^item> \<open>coerce_datetime\<close>, \<open>coerce_numeric\<close>: \<open>pd.to_datetime\<close> and \<open>pd.to_numeric\<close> with
    \<open>errors='coerce'\<close>, on one cell;
  \<^item> \<open>refresh_ui\<close>: lines 990-1002 (\<open>create_filter_widgets\<close>, the buttons, \<open>analyze\<close>),
    which read the table and do not assign \<open>self.df\<close>; \<open>Some e\<close>: they raise.
\<close>

datatype call = Read_csv | Excel_columns | Excel_top10 | Excel_header nat | Ods_header3

record io =
  reader :: "call \<Rightarrow> error + frame"
  coerce_datetime :: "cell \<Rightarrow> cell"
  coerce_numeric :: "cell \<Rightarrow> cell"
  refresh_ui :: "frame \<Rightarrow> error option"

record loader =
  l_df :: "frame option"
  current_file_path :: string
  l_edit_mode :: bool
  status_label :: string
  l_dialogs :: "dialog list"

definition endswith :: "string \<Rightarrow> string \<Rightarrow> bool" where
  "endswith s suf = (length suf \<le> length s \<and> drop (length s - length suf) s = suf)"

text \<open>\<open>os.path.basename\<close> and the root of \<open>os.path.splitext\<close>, for paths written with \<open>/\<close>.\<close>

definition basename :: "string \<Rightarrow> string" where
  "basename p = rev (takeWhile (\<lambda>c. c \<noteq> CHR ''/'') (rev p))"

definition splitext_root :: "string \<Rightarrow> string" where
  "splitext_root b =
     (let rest = dropWhile (\<lambda>c. c \<noteq> CHR ''.'') (rev b)
      in if rest = [] \<or> list_all (\<lambda>c. c = CHR ''.'') (tl rest) then b else rev (tl rest))"

text \<open>Lines 916-933: the alternate format with the columns Date, Category, Description, Type, Amount.\<close>

definition required_niru :: "string list" where
  "required_niru = [''Date'', ''Category'', ''Description'', ''Type'', ''Amount'']"

definition type_is :: "string \<Rightarrow> cell \<Rightarrow> bool" where
  "type_is t c = (case c of Txt s \<Rightarrow> lower s = t | _ \<Rightarrow> False)"

definition amount_if :: "string \<Rightarrow> cell \<times> cell \<Rightarrow> cell" where
  "amount_if t p = (if type_is t (fst p) then snd p else Num 0)"

text \<open>
  The conversion assigns a new table to \<open>self.df\<close> and fills it column by column. The
  result is the table as far as it got, and the exception if a column of the raw table
  is missing under its exact name (the check before it compares stripped names).
\<close>

definition niru_convert :: "string \<Rightarrow> frame \<Rightarrow> frame \<times> error option" where
  "niru_convert path raw =
     (let f0 = \<lparr>nrows = 0, cols = []\<rparr> in
      case get_col raw ''Date'' of None \<Rightarrow> (f0, Some KeyError)
      | Some dates \<Rightarrow>
      let f1 = set_col ''Expense Date'' dates (f0\<lparr>nrows := nrows raw\<rparr>) in
      case get_col raw ''Category'' of None \<Rightarrow> (f1, Some KeyError)
      | Some cats \<Rightarrow>
      let f2 = set_col ''Expense Category'' cats f1 in
      case get_col raw ''Description'' of None \<Rightarrow> (f2, Some KeyError)
      | Some descs \<Rightarrow>
      let f3 = set_col ''Expense Description'' descs f2 in
      case (get_col raw ''Type'', get_col raw ''Amount'') of
        (Some types, Some amounts) \<Rightarrow>
          let f4 = set_col ''Expense Amount'' (map (amount_if ''expense'') (zip types amounts)) f3;
              f5 = set_col ''Income Amount'' (map (amount_if ''income'') (zip types amounts)) f4;
              f6 = set_col ''Paid Through'' (replicate (nrows raw) (Txt [])) f5;
              f7 = set_col ''Merchant Name'' (replicate (nrows raw) (Txt [])) f6;
              f8 = set_col ''Report Name''
                     (replicate (nrows raw) (Txt (splitext_root (basename path)))) f7
          in (f8, None)
      | _ \<Rightarrow> (f3, Some KeyError))"

text \<open>Lines 941-955: the first of the top ten rows that holds a known column name.\<close>

definition is_header_cell :: "cell \<Rightarrow> bool" where
  "is_header_cell c =
     (case c of Txt s \<Rightarrow> strip s = ''Expense Category'' \<or> strip s = ''Category'' | _ \<Rightarrow> False)"

definition rows_of :: "frame \<Rightarrow> cell list list" where
  "rows_of f = map (\<lambda>i. map (\<lambda>p. snd p ! i) (cols f)) [0..<nrows f]"

definition find_header :: "frame \<Rightarrow> nat" where
  "find_header t =
     (case List.find (\<lambda>i. list_ex is_header_cell (rows_of t ! i)) [0..<nrows t] of
        None \<Rightarrow> 0 | Some i \<Rightarrow> i)"

text \<open>
  The reads of lines 907-969. \<open>Inr f\<close>: the table \<open>f\<close> has been assigned to \<open>self.df\<close>.
  \<open>Inl (a, e)\<close>: the exception \<open>e\<close> reaches the outer handler, and \<open>a\<close> is the table last
  assigned to \<open>self.df\<close> on the way (\<open>None\<close>: none was assigned).
\<close>

definition as_assigned :: "error + frame \<Rightarrow> (frame option \<times> error) + frame" where
  "as_assigned r = (case r of Inl e \<Rightarrow> Inl (None, e) | Inr f \<Rightarrow> Inr f)"

definition try_xlsx :: "io \<Rightarrow> string \<Rightarrow> (frame option \<times> error) + frame" where
  "try_xlsx env path =
     (case reader env Excel_columns of Inl e \<Rightarrow> Inl (None, e)
      | Inr df_check \<Rightarrow>
          if list_all (\<lambda>c. c \<in> set (map (\<lambda>p. strip (fst p)) (cols df_check))) required_niru
          then (case reader env (Excel_header 0) of Inl e \<Rightarrow> Inl (None, e)
                | Inr df_raw \<Rightarrow>
                    (case niru_convert path df_raw of
                       (f, None) \<Rightarrow> Inr f | (f, Some e) \<Rightarrow> Inl (Some f, e)))
          else as_assigned (reader env (Excel_header
                 (case reader env Excel_top10 of Inl e \<Rightarrow> 0 | Inr t \<Rightarrow> find_header t))))"

definition read_phase :: "io \<Rightarrow> string \<Rightarrow> (frame option \<times> error) + frame" where
  "read_phase env path =
     (if endswith (lower path) ''.csv'' then as_assigned (reader env Read_csv)
      else if endswith (lower path) ''.xlsx''
      then (case try_xlsx env path of
              Inr f \<Rightarrow> Inr f
            | Inl (a, e) \<Rightarrow>
                (case reader env (Excel_header 0) of Inl e' \<Rightarrow> Inl (a, e') | Inr f \<Rightarrow> Inr f))
      else as_assigned (reader env Ods_header3))"

text \<open>
  Lines 971-988, on the table that \<open>self.df\<close> holds: the table as far as the steps
  got, and KeyError if a column they read is missing.
\<close>

definition normalise :: "io \<Rightarrow> frame \<Rightarrow> frame \<times> error option" where
  "normalise env f0 =
     (let f1 = set_col ''original_index'' (map (\<lambda>i. Num (of_nat i)) [0..<nrows f0]) f0;
          f2 = (if has_col f1 ''Total'' then drop_col ''Total'' f1 else f1);
          f3 = (if \<not> has_col f2 ''Paid Through''
                then set_col ''Paid Through'' (replicate (nrows f2) (Txt [])) f2 else f2) in
      case get_col f3 ''Merchant Name'' of None \<Rightarrow> (f3, Some KeyError)
      | Some ms \<Rightarrow>
      let f4 = set_col ''Merchant Name'' (map (fillna (Txt ''Unknown'')) ms) f3 in
      case get_col f4 ''Expense Category'' of None \<Rightarrow> (f4, Some KeyError)
      | Some cs \<Rightarrow>
      let f5 = set_col ''Expense Category'' (map (fillna (Txt ''Uncategorized'')) cs) f4 in
      case get_col f5 ''Paid Through'' of None \<Rightarrow> (f5, Some KeyError)
      | Some ps \<Rightarrow>
      let f6 = set_col ''Paid Through'' (map (fillna (Txt [])) ps) f5 in
      case get_col f6 ''Expense Date'' of None \<Rightarrow> (f6, Some KeyError)
      | Some ds \<Rightarrow>
      let f7 = set_col ''Expense Date'' (map (coerce_datetime env) ds) f6 in
      case get_col f7 ''Expense Amount'' of None \<Rightarrow> (f7, Some KeyError)
      | Some es \<Rightarrow>
      let f8 = set_col ''Expense Amount'' (map (\<lambda>c. fillna (Num 0) (coerce_numeric env c)) es) f7 in
      case get_col f8 ''Income Amount'' of None \<Rightarrow> (f8, Some KeyError)
      | Some is \<Rightarrow>
      (set_col ''Income Amount'' (map (\<lambda>c. fillna (Num 0) (coerce_numeric env c)) is) f8, None))"

text \<open>The handler of line 1004: the error dialog and the status "Load Failed".\<close>

definition load_failed :: "loader \<Rightarrow> loader" where
  "load_failed st = st\<lparr>l_dialogs := l_dialogs st @ [ShowError ''Error''],
                       status_label := ''Load Failed''\<rparr>"

definition assign :: "frame option \<Rightarrow> loader \<Rightarrow> loader" where
  "assign a st = (case a of None \<Rightarrow> st | Some f \<Rightarrow> st\<lparr>l_df := Some f\<rparr>)"

text \<open>The body of \<open>load_file\<close> under \<open>try\<close>, with its handler, for the path \<open>path\<close>.\<close>

definition load_path :: "io \<Rightarrow> string \<Rightarrow> loader \<Rightarrow> loader" where
  "load_path env path st =
     (let st1 = st\<lparr>current_file_path := path, l_edit_mode := False,
                    status_label := ''Loaded: '' @ basename path\<rparr>
      in case read_phase env path of
           Inl (a, e) \<Rightarrow> load_failed (assign a st1)
         | Inr f \<Rightarrow>
             (case normalise env f of
                (f', Some e) \<Rightarrow> load_failed (st1\<lparr>l_df := Some f'\<rparr>)
              | (f', None) \<Rightarrow>
                  (case refresh_ui env f' of
                     Some e \<Rightarrow> load_failed (st1\<lparr>l_df := Some f'\<rparr>)
                   | None \<Rightarrow> st1\<lparr>l_df := Some f'\<rparr>)))"

text \<open>
  \<open>load_file\<close>: the argument \<open>file_path\<close>, the answer of the file dialog, the state.
\<close>

definition load_file :: "io \<Rightarrow> string \<Rightarrow> string \<Rightarrow> loader \<Rightarrow> loader" where
  "load_file env file_path chosen st =
     (let path = (if file_path = [] then chosen else file_path)
      in if path = [] then st else load_path env path st)"

text \<open>The exception that reaches the handler of \<open>load_file\<close>, if any: the load fails.\<close>

definition load_error :: "io \<Rightarrow> string \<Rightarrow> error option" where
  "load_error env path =
     (case read_phase env path of
        Inl (a, e) \<Rightarrow> Some e
      | Inr f \<Rightarrow> (case normalise env f of
                    (f', Some e) \<Rightarrow> Some e
                  | (f', None) \<Rightarrow> refresh_ui env f'))"

text \<open>Examples: a state that holds a table, a CSV file without the column Merchant Name,
  and an unreadable file.\<close>

definition old_table :: frame where
  "old_table = \<lparr>nrows = 1, cols = [(''Merchant Name'', [Txt ''Cafe''])]\<rparr>"

definition loaded_before :: loader where
  "loaded_before = \<lparr>l_df = Some old_table, current_file_path = ''old.csv'', l_edit_mode = True,
                     status_label = ''Loaded: old.csv'', l_dialogs = []\<rparr>"

definition no_merchant :: frame where
  "no_merchant = \<lparr>nrows = 1, cols = [(''Expense Date'', [Txt ''2024-01-05'']),
                    (''Expense Category'', [Txt ''Food'']), (''Expense Amount'', [Num 30]),
                    (''Income Amount'', [Num 0]), (''Report Name'', [Txt ''R1''])]\<rparr>"

definition env_no_merchant :: io where
  "env_no_merchant = \<lparr>reader = (\<lambda>c. Inr no_merchant), coerce_datetime = (\<lambda>c. c),
                       coerce_numeric = (\<lambda>c. c), refresh_ui = (\<lambda>f. None)\<rparr>"

definition env_unreadable :: io where
  "env_unreadable = \<lparr>reader = (\<lambda>c. Inl ValueError), coerce_datetime = (\<lambda>c. c),
                      coerce_numeric = (\<lambda>c. c), refresh_ui = (\<lambda>f. None)\<rparr>"

section \<open>Properties\<close>

subsection \<open>Matching in the filter domains and in the query\<close>

lemma is_substr_refl: "is_substr p p"
  by (cases p) auto

text \<open>
  C1 (as amended). \<open>update_combos\<close> narrows by exact equality of the column with the
  selected value, \<open>analyze\<close> by case-insensitive containment. For a value without regex
  metacharacters, every row that the predicate of \<open>update_combos\<close> accepts is accepted
  by the predicate of \<open>analyze\<close>; the converse does not hold.
\<close>

theorem combo_pred_implies_query_pred:
  assumes "is_literal val" and "combo_pred k val r"
  shows "query_accepts L k val r = Some True"
  using assms
  by (simp add: query_accepts_def query_pred_def str_contains_def combo_pred_def
      astype_str_def is_substr_refl)

theorem combo_pred_implies_query_pred_witness:
  "is_literal ''Food'' \<and> combo_pred Report ''Food'' food_row
   \<and> query_accepts ref_lib Report ''Food'' food_row = Some True"
proof -
  have l: "is_literal ''Food''" by (simp add: is_literal_def regex_special_def)
  have c: "combo_pred Report ''Food'' food_row" by (simp add: combo_pred_def food_row_def)
  from combo_pred_implies_query_pred [OF l c, of ref_lib] l c show ?thesis by simp
qed

text \<open>
  C1 as stated fails: for the report name \<open>Food\<close> and the value \<open>foo\<close> the predicate of
  \<open>update_combos\<close> is false and the predicate of \<open>analyze\<close> is true.
\<close>

theorem predicates_differ_counterexample:
  "combo_pred Report ''foo'' food_row = False
   \<and> query_accepts ref_lib Report ''foo'' food_row = Some True"
  by (simp add: combo_pred_def food_row_def query_accepts_def query_pred_def str_contains_def
      is_literal_def regex_special_def astype_str_def lower_def lower_char_def)

subsection \<open>Evaluation and the error monad\<close>

lemma bindE_Inr [simp]: "bindE (Inr x) f = f x"
  by (simp add: bindE_def)

lemma bindE_Inl [simp]: "bindE (Inl e) f = Inl e"
  by (simp add: bindE_def)

lemma bindE_eq_Inr: "bindE m f = Inr y \<longleftrightarrow> (\<exists>x. m = Inr x \<and> f x = Inr y)"
  by (cases m) auto

lemmas eval_text = lower_def lower_char_def strip_def is_space_def is_literal_def
  regex_special_def astype_str_def

lemmas eval_query = matched_def apply_filters_def guarded_def active_def dropna_date_def
  by_contains_def by_year_def by_month_def by_desc_def desc_pred_def query_pred_def
  str_contains_def advanced_def date_bnd_def get_float_def ge_date_def le_date_def
  year_is_def month_is_def year_def month_def

lemmas eval_lib = ref_lib_def iso_date_def dec_float_def dec_int_def parse_nat_def digit_of_def
  stable_desc_def date_key_def

subsection \<open>A query that matches nothing\<close>

lemma strftime_food: "map_option strftime_ymd (expense_date food_row) = Some ''2024-01-15''"
  by (simp add: food_row_def strftime_ymd_def fmt_04d_def fmt_02d_def str_nat.simps)

text \<open>
  C10. When the filters match no row, \<open>analyze\<close> shows "No records found." and returns:
  \<open>filtered_df\<close>, the four totals and both trees are as the preceding query left them.
  \<open>export_csv\<close> to a chosen file then writes a table, and its rows are the rows that the
  preceding query stored, in their order, each with its date as text.
\<close>

theorem analyze_empty_keeps_outputs:
  assumes "df st = Some rows" and "matched L (filters st) rows = Inr []"
  shows "\<exists>st'. analyze L st = Inr st'
           \<and> dialogs st' = dialogs st @ [ShowInfo ''No records found.'']
           \<and> filtered_df st' = filtered_df st
           \<and> lbl_records st' = lbl_records st \<and> lbl_inc st' = lbl_inc st
           \<and> lbl_exp st' = lbl_exp st \<and> lbl_bal st' = lbl_bal st
           \<and> sum_tree st' = sum_tree st \<and> tree st' = tree st
           \<and> (\<forall>prev p. filtered_df st = Some prev \<and> p \<noteq> [] \<longrightarrow>
                 (\<exists>tbl. export_csv (Some p) st' = Some (p, tbl) \<and> map snd tbl = prev
                    \<and> map fst tbl
                        = map (\<lambda>r. map_option strftime_ymd (expense_date (row r))) prev))"
  using assms by (simp add: analyze_def export_csv_def comp_def)

theorem analyze_empty_keeps_outputs_witness:
  "df after_query = Some [food_row]
   \<and> matched ref_lib (filters after_query) [food_row] = Inr []
   \<and> filtered_df after_query = Some [with_bal food_row] \<and> ''out.csv'' \<noteq> []
   \<and> (\<exists>st'. analyze ref_lib after_query = Inr st'
        \<and> dialogs st' = [ShowInfo ''No records found.'']
        \<and> filtered_df st' = Some [with_bal food_row]
        \<and> lbl_records st' = Some 1 \<and> lbl_exp st' = Some 30
        \<and> tree st' = [with_bal food_row]
        \<and> export_csv (Some ''out.csv'') st'
            = Some (''out.csv'', [(Some ''2024-01-15'', with_bal food_row)]))"
proof -
  have d: "df after_query = Some [food_row]"
    by (simp add: after_query_def app_of_def)
  have m: "matched ref_lib (filters after_query) [food_row] = Inr []"
    by (simp add: after_query_def app_of_def no_filters_def food_row_def eval_query eval_text)
  have f: "filtered_df after_query = Some [with_bal food_row]" "dialogs after_query = []"
    "lbl_records after_query = Some 1" "lbl_exp after_query = Some 30"
    "tree after_query = [with_bal food_row]"
    by (simp_all add: after_query_def app_of_def)
  from analyze_empty_keeps_outputs [OF d m]
  obtain st' where a: "analyze ref_lib after_query = Inr st'"
    and k: "dialogs st' = dialogs after_query @ [ShowInfo ''No records found.'']"
      "filtered_df st' = filtered_df after_query" "lbl_records st' = lbl_records after_query"
      "lbl_exp st' = lbl_exp after_query" "tree st' = tree after_query"
    and e: "\<forall>prev p. filtered_df after_query = Some prev \<and> p \<noteq> [] \<longrightarrow>
                 (\<exists>tbl. export_csv (Some p) st' = Some (p, tbl) \<and> map snd tbl = prev
                    \<and> map fst tbl
                        = map (\<lambda>r. map_option strftime_ymd (expense_date (row r))) prev)"
    by blast
  from e f(1) obtain tbl where t: "export_csv (Some ''out.csv'') st' = Some (''out.csv'', tbl)"
    and s: "map snd tbl = [with_bal food_row]"
    and g: "map fst tbl
              = map (\<lambda>r. map_option strftime_ymd (expense_date (row r))) [with_bal food_row]"
    by force
  from s g have "tbl = [(Some ''2024-01-15'', with_bal food_row)]"
    by (cases tbl) (auto simp: with_bal_def strftime_food)
  with a k f t d m show ?thesis by simp
qed

subsection \<open>The state after a query\<close>

lemma sorts_mset: "sorts L \<Longrightarrow> mset (sort_values L d) = mset d"
  by (simp add: sorts_def)

lemma sorts_set: "sorts L \<Longrightarrow> set (sort_values L d) = set d"
  by (metis sorts_mset set_mset_mset)

lemma sorts_length: "sorts L \<Longrightarrow> length (sort_values L d) = length d"
  by (metis sorts_mset size_mset)

lemma sorts_nonempty: "sorts L \<Longrightarrow> d \<noteq> [] \<Longrightarrow> sort_values L d \<noteq> []"
  by (metis sorts_length length_0_conv)

lemma analyze_result:
  assumes "df st = Some rows" and "matched L (filters st) rows = Inr m" and "m \<noteq> []"
  shows "analyze L st = Inr (st\<lparr>filtered_df := Some (sort_values L (map with_bal m)),
            lbl_records := Some (length (sort_values L (map with_bal m))),
            lbl_inc := Some (col_sum L (map (\<lambda>r. income_amount (row r)) (sort_values L (map with_bal m)))),
            lbl_exp := Some (col_sum L (map (\<lambda>r. expense_amount (row r)) (sort_values L (map with_bal m)))),
            lbl_bal := Some (col_sum L (map (\<lambda>r. income_amount (row r)) (sort_values L (map with_bal m)))
                       - col_sum L (map (\<lambda>r. expense_amount (row r)) (sort_values L (map with_bal m)))),
            sum_tree := sum_grp L (sort_values L (map with_bal m)),
            tree := sort_values L (map with_bal m)\<rparr>)"
  using assms by (simp add: analyze_def Let_def)

lemma analyze_empty:
  assumes "df st = Some rows" and "matched L (filters st) rows = Inr []"
  shows "analyze L st = Inr (say (ShowInfo ''No records found.'') st)"
  using assms by (simp add: analyze_def say_def)

lemma mset_ins_desc: "mset (ins_desc x ys) = add_mset x (mset ys)"
  by (induction ys) auto

lemma set_ins_desc: "set (ins_desc x ys) = insert x (set ys)"
  by (induction ys) auto

lemma descending_ins_desc: "descending ys \<Longrightarrow> descending (ins_desc x ys)"
  by (induction ys) (auto simp: descending_def set_ins_desc)

lemma mset_stable_desc: "mset (stable_desc d) = mset d"
  by (induction d) (auto simp: stable_desc_def mset_ins_desc)

lemma descending_stable_desc: "descending (stable_desc d)"
proof (induction d)
  case Nil
  show ?case by (simp add: stable_desc_def descending_def)
next
  case (Cons x d)
  then show ?case using descending_ins_desc [of "stable_desc d" x] by (simp add: stable_desc_def)
qed

lemma sorts_ref_lib: "sorts ref_lib"
  by (simp add: sorts_def ref_lib_def mset_stable_desc descending_stable_desc)

lemma exact_ref_lib: "exact_sums ref_lib"
  by (simp add: exact_sums_def ref_lib_def)

lemma matched_food_travel:
  "matched ref_lib no_filters food_travel = Inr food_travel"
  by (simp add: food_travel_def mk_row_def no_filters_def eval_query eval_text)

lemma sort_food_travel:
  "sort_values ref_lib (map with_bal food_travel) = rev (map with_bal food_travel)"
  by (simp add: food_travel_def mk_row_def with_bal_def eval_lib)

subsection \<open>The month domain\<close>

lemma guarded_by_equal:
  "guarded b (by_equal k v) d = Inr (filter (\<lambda>r. b \<longrightarrow> combo_pred k v r) d)"
  by (simp add: guarded_def by_equal_def)

lemma guarded_by_year:
  "(b \<longrightarrow> py_int L v \<noteq> None) \<Longrightarrow>
   guarded b (by_year L v) d
     = Inr (filter (\<lambda>r. b \<longrightarrow> (case py_int L v of Some y \<Rightarrow> year_is y r | None \<Rightarrow> False)) d)"
  by (auto simp: guarded_def by_year_def)

lemma guarded_by_month:
  "(b \<longrightarrow> py_int L v \<noteq> None) \<Longrightarrow>
   guarded b (by_month L v) d
     = Inr (filter (\<lambda>r. b \<longrightarrow> (case py_int L v of Some m \<Rightarrow> month_is m r | None \<Rightarrow> False)) d)"
  by (auto simp: guarded_def by_month_def)

lemma combo_filters_narrowed:
  assumes "active (year_var f) \<longrightarrow> py_int L (year_var f) \<noteq> None"
    and "active (month_var f) \<longrightarrow> py_int L (month_var f) \<noteq> None"
  shows "combo_filters L f (dropna_date rows) = Inr (narrowed L f rows)"
proof -
  have "combo_filters L f (dropna_date rows)
      = Inr (filter (\<lambda>r. active (paid_var f) \<longrightarrow> combo_pred Paid (paid_var f) r)
          (filter (\<lambda>r. active (merchant_var f) \<longrightarrow> combo_pred Merchant (merchant_var f) r)
          (filter (\<lambda>r. active (category_var f) \<longrightarrow> combo_pred Category (category_var f) r)
          (filter (\<lambda>r. active (month_var f) \<longrightarrow>
                      (case py_int L (month_var f) of Some m \<Rightarrow> month_is m r | None \<Rightarrow> False))
          (filter (\<lambda>r. active (year_var f) \<longrightarrow>
                      (case py_int L (year_var f) of Some y \<Rightarrow> year_is y r | None \<Rightarrow> False))
          (filter (\<lambda>r. active (report_var f) \<longrightarrow> combo_pred Report (report_var f) r)
             (dropna_date rows)))))))"
    unfolding combo_filters_def
    by (simp only: guarded_by_equal guarded_by_year [OF assms(1)] guarded_by_month [OF assms(2)]
        bindE_Inr)
  also have "\<dots> = Inr (narrowed L f rows)"
    unfolding narrowed_def filter_filter
    by (rule arg_cong [where f = Inr], rule filter_cong [OF refl])
      (auto simp: selection_holds_def combo_pred_def year_is_def month_is_def year_def month_def
        split: option.splits)
  finally show ?thesis .
qed

text \<open>The format \<open>02d\<close> of a number below 100 is its two digits.\<close>

lemma digit_chars:
  "digit_char 0 = CHR ''0''" "digit_char (Suc 0) = CHR ''1''" "digit_char 2 = CHR ''2''"
  "digit_char 3 = CHR ''3''" "digit_char 4 = CHR ''4''" "digit_char 5 = CHR ''5''"
  "digit_char 6 = CHR ''6''" "digit_char 7 = CHR ''7''" "digit_char 8 = CHR ''8''"
  "digit_char 9 = CHR ''9''"
  by code_simp+

lemma digit_nth: "k < 10 \<Longrightarrow> ''0123456789'' ! k = digit_char k"
proof -
  assume "k < 10"
  then have "k = 0 \<or> k = 1 \<or> k = 2 \<or> k = 3 \<or> k = 4 \<or> k = 5 \<or> k = 6 \<or> k = 7
             \<or> k = 8 \<or> k = 9"
    by arith
  then show ?thesis by (elim disjE) (simp_all add: digit_chars)
qed

lemma str_nat_digit: "k < 10 \<Longrightarrow> str_nat k = [digit_char k]"
  by (subst str_nat.simps) (simp add: digit_nth)

lemma fmt_02d_two_digits:
  assumes "m < 100"
  shows "fmt_02d m = two_digits m"
proof (cases "m < 10")
  case True
  then show ?thesis by (simp add: fmt_02d_def two_digits_def str_nat_digit digit_chars)
next
  case False
  have "m div 10 < 10" "m mod 10 < 10" using assms by auto
  then have "str_nat m = [digit_char (m div 10), digit_char (m mod 10)]"
    using False by (subst str_nat.simps) (simp add: str_nat_digit digit_nth)
  with False show ?thesis by (simp add: fmt_02d_def two_digits_def)
qed

text \<open>Distinct numbers below 100 have distinct two-digit strings, ordered as the numbers.\<close>

lemma digit_char_less: "i < 10 \<Longrightarrow> j < 10 \<Longrightarrow> digit_char i < digit_char j \<longleftrightarrow> i < j"
  by (simp add: digit_char_def less_char_def)

lemma digit_char_eq: "i < 10 \<Longrightarrow> j < 10 \<Longrightarrow> digit_char i = digit_char j \<longleftrightarrow> i = j"
  using digit_char_less [of i j] digit_char_less [of j i] by (metis less_irrefl nat_neq_iff)

lemma div_mod_less:
  fixes a b :: nat
  assumes "a < b"
  shows "a div 10 < b div 10 \<or> (a div 10 = b div 10 \<and> a mod 10 < b mod 10)"
proof -
  have l: "a div 10 \<le> b div 10" using assms by (simp add: div_le_mono)
  have "a mod 10 < b mod 10" if "a div 10 = b div 10"
    using that assms div_mult_mod_eq [of a 10] div_mult_mod_eq [of b 10] by linarith
  with l show ?thesis by linarith
qed

lemma two_digits_less:
  assumes "a < b" and "b < 100"
  shows "two_digits a < two_digits b"
proof -
  have r: "a div 10 < 10" "b div 10 < 10" "a mod 10 < 10" "b mod 10 < 10"
    using assms by simp_all
  from div_mod_less [OF assms(1)] show ?thesis
    by (auto simp: two_digits_def digit_char_less r digit_char_eq)
qed

lemma sort_remdups_map:
  fixes f :: "'a::linorder \<Rightarrow> 'b::linorder"
  assumes "\<And>a b. a \<in> set xs \<Longrightarrow> b \<in> set xs \<Longrightarrow> a < b \<Longrightarrow> f a < f b"
  shows "sort (remdups (map f xs)) = map f (sort (remdups xs))"
proof (rule sorted_distinct_set_unique)
  let ?ys = "sort (remdups xs)"
  have s: "sorted_wrt (<) ?ys" by (simp add: strict_sorted_iff)
  have "sorted_wrt (\<lambda>x y. f x < f y) ?ys"
    by (rule sorted_wrt_mono_rel [OF _ s]) (simp add: assms)
  then have t: "sorted_wrt (<) (map f ?ys)" by (simp add: sorted_wrt_map)
  then show "sorted (map f ?ys)" "distinct (map f ?ys)"
    by (simp_all add: strict_sorted_iff)
  show "sorted (sort (remdups (map f xs)))" "distinct (sort (remdups (map f xs)))"
    by simp_all
  show "set (sort (remdups (map f xs))) = set (map f ?ys)" by simp
qed

lemma month_values_months: "month_values d = map fmt_02d (months_of d)"
  by (induction d)
    (auto simp: month_values_def months_of_def map_filter_simps split: option.splits)

lemma set_months_of:
  "set (months_of d) = {m. \<exists>r t. r \<in> set d \<and> expense_date r = Some t \<and> month t = m}"
  by (induction d) (auto simp: months_of_def map_filter_simps split: option.splits)

lemma months_valid:
  assumes "valid_months rows" and "set d \<subseteq> set rows" and "m \<in> set (months_of d)"
  shows "1 \<le> m \<and> m \<le> 12"
proof -
  from assms(3) obtain r t where "r \<in> set d" "expense_date r = Some t" "month t = m"
    unfolding set_months_of by blast
  with assms(1,2) show ?thesis by (force simp: valid_months_def)
qed

lemma sorted_month_values:
  assumes "valid_months rows" and "set d \<subseteq> set rows"
  shows "sort (remdups (month_values d)) = map two_digits (sort (remdups (months_of d)))"
proof -
  have b: "m < 100" if "m \<in> set (months_of d)" for m
    using months_valid [OF assms that] by simp
  have "month_values d = map two_digits (months_of d)"
    unfolding month_values_months by (rule map_cong [OF refl]) (simp add: fmt_02d_two_digits b)
  then show ?thesis
    by (simp only:) (rule sort_remdups_map, simp add: two_digits_less b)
qed

lemma narrowed_subset: "set (narrowed L f rows) \<subseteq> set rows"
  by (auto simp: narrowed_def dropna_date_def)

text \<open>The updates that follow the one of the months leave the month combobox as it is.\<close>

lemma month_combo_update_key:
  "update_key L k d f = Inr f' \<Longrightarrow> month_combo f' = month_combo f"
  by (cases k) (auto simp: update_key_def split: option.splits)

lemma month_combo_update_dates:
  "month_combo (update_dates d f) = ''All'' # sort (remdups (month_values d))"
  by (simp add: update_dates_def update_def)

lemma month_combo_refresh:
  assumes "update_key L Report d f0 = Inr f1"
  shows "month_combo (fst (refresh L d f0)) = ''All'' # sort (remdups (month_values d))"
proof -
  let ?f3 = "update_dates d f1"
  note m = month_combo_update_dates [of d f1]
  show ?thesis
  proof (cases "update_key L Category d ?f3")
    case (Inl e)
    with assms m show ?thesis by (simp add: refresh_def)
  next
    case c: (Inr f4)
    show ?thesis
    proof (cases "update_key L Merchant d f4")
      case (Inl e)
      with assms c m month_combo_update_key [OF c] show ?thesis by (simp add: refresh_def)
    next
      case e: (Inr f5)
      show ?thesis
      proof (cases "update_key L Paid d f5")
        case (Inl x)
        with assms c e m month_combo_update_key [OF c] month_combo_update_key [OF e]
        show ?thesis by (simp add: refresh_def)
      next
        case p: (Inr f6)
        with assms c e m month_combo_update_key [OF c] month_combo_update_key [OF e]
          month_combo_update_key [OF p]
        show ?thesis by (simp add: refresh_def)
      qed
    qed
  qed
qed

lemma update_key_sortable:
  "py_sorted (remdups (values_of k d)) \<noteq> None \<Longrightarrow> \<exists>f'. update_key L k d f = Inr f'"
  by (auto simp: update_key_def update_cells_def Let_def split: option.splits)


lemma py_int_2024: "py_int ref_lib ''2024'' = Some 2024"
  by (simp add: eval_lib)

lemma narrowed_2024:
  "narrowed ref_lib (no_filters\<lparr>year_var := ''2024''\<rparr>) jan_feb = [mk_row 0 (2024, 1, 10) ''C1'' ''M1'' 5 0]"
  by (simp add: narrowed_def selection_holds_def py_int_2024 jan_feb_def mk_row_def no_filters_def
      active_def dropna_date_def)

lemma narrowed_numbered:
  "narrowed ref_lib (no_filters\<lparr>report_var := ''2024''\<rparr>) numbered = []"
  by (simp add: narrowed_def selection_holds_def numbered_def mk_row_def no_filters_def
      active_def dropna_date_def)

lemma two_digits_1: "two_digits (Suc 0) = ''01''"
  by (simp add: two_digits_def digit_chars)


subsection \<open>Malformed range bounds\<close>

lemma date_bnd_None [simp]: "date_bnd L None = Absent"
  by (simp add: date_bnd_def strip_def)

lemma get_float_None [simp]: "get_float L None = Absent"
  by (simp add: get_float_def)

lemma apply_filters_bounds [simp]:
  "apply_filters L (f\<lparr>date_start := a\<rparr>) d = apply_filters L f d"
  "apply_filters L (f\<lparr>date_end := a\<rparr>) d = apply_filters L f d"
  "apply_filters L (f\<lparr>exp_min := a\<rparr>) d = apply_filters L f d"
  "apply_filters L (f\<lparr>exp_max := a\<rparr>) d = apply_filters L f d"
  "apply_filters L (f\<lparr>inc_min := a\<rparr>) d = apply_filters L f d"
  "apply_filters L (f\<lparr>inc_max := a\<rparr>) d = apply_filters L f d"
  by (simp_all add: apply_filters_def)

lemma advanced_start_malformed:
  "date_bnd L (date_start f) = Malformed \<Longrightarrow>
   advanced L f d = advanced L (f\<lparr>date_start := None, date_end := None, exp_min := None,
                                  exp_max := None, inc_min := None, inc_max := None\<rparr>) d"
  by (simp add: advanced_def)

lemma advanced_end_malformed:
  "date_bnd L (date_start f) \<noteq> Malformed \<Longrightarrow> date_bnd L (date_end f) = Malformed \<Longrightarrow>
   advanced L f d = advanced L (f\<lparr>date_end := None, exp_min := None,
                                  exp_max := None, inc_min := None, inc_max := None\<rparr>) d"
  by (simp add: advanced_def Let_def)

lemma advanced_amount_malformed:
  "date_bnd L (date_start f) \<noteq> Malformed \<Longrightarrow> date_bnd L (date_end f) \<noteq> Malformed \<Longrightarrow>
   get_float L (exp_min f) = Malformed \<or> get_float L (exp_max f) = Malformed
     \<or> get_float L (inc_min f) = Malformed \<or> get_float L (inc_max f) = Malformed \<Longrightarrow>
   advanced L f d = advanced L (f\<lparr>exp_min := None, exp_max := None, inc_min := None,
                                  inc_max := None\<rparr>) d"
  by (simp add: advanced_def Let_def)

text \<open>With well-formed categorical, text, year and month filters no exception leaves the query.\<close>

lemma guarded_by_contains_ok:
  "(b \<longrightarrow> str_contains L True v \<noteq> None) \<Longrightarrow> \<exists>d'. guarded b (by_contains L k v) d = Inr d'"
  by (auto simp: guarded_def by_contains_def query_pred_def)

lemma guarded_by_year_ok:
  "(b \<longrightarrow> py_int L v \<noteq> None) \<Longrightarrow> \<exists>d'. guarded b (by_year L v) d = Inr d'"
  by (auto simp: guarded_def by_year_def)

lemma guarded_by_month_ok:
  "(b \<longrightarrow> py_int L v \<noteq> None) \<Longrightarrow> \<exists>d'. guarded b (by_month L v) d = Inr d'"
  by (auto simp: guarded_def by_month_def)

lemma guarded_by_desc_ok:
  "(b \<longrightarrow> str_contains L False v \<noteq> None) \<Longrightarrow> \<exists>d'. guarded b (by_desc L v) d = Inr d'"
  by (auto simp: guarded_def by_desc_def)

lemma apply_filters_ok:
  assumes "text_ok L f"
  shows "\<exists>d. apply_filters L f d0 = Inr d"
proof -
  from assms have
    r: "active (report_var f) \<longrightarrow> str_contains L True (report_var f) \<noteq> None" and
    y: "active (year_var f) \<longrightarrow> py_int L (year_var f) \<noteq> None" and
    m: "active (month_var f) \<longrightarrow> py_int L (month_var f) \<noteq> None" and
    c: "active (category_var f) \<longrightarrow> str_contains L True (category_var f) \<noteq> None" and
    e: "active (merchant_var f) \<longrightarrow> str_contains L True (merchant_var f) \<noteq> None" and
    p: "active (paid_var f) \<longrightarrow> str_contains L True (paid_var f) \<noteq> None" and
    t: "lower (strip (desc_var f)) \<noteq> [] \<longrightarrow>
          str_contains L False (lower (strip (desc_var f))) \<noteq> None"
    by (simp_all add: text_ok_def)
  obtain d1 where 1: "guarded (active (report_var f)) (by_contains L Report (report_var f)) d0 = Inr d1"
    using guarded_by_contains_ok [OF r] by blast
  obtain d2 where 2: "guarded (active (year_var f)) (by_year L (year_var f)) d1 = Inr d2"
    using guarded_by_year_ok [OF y] by blast
  obtain d3 where 3: "guarded (active (month_var f)) (by_month L (month_var f)) d2 = Inr d3"
    using guarded_by_month_ok [OF m] by blast
  obtain d4 where 4: "guarded (active (category_var f)) (by_contains L Category (category_var f)) d3 = Inr d4"
    using guarded_by_contains_ok [OF c] by blast
  obtain d5 where 5: "guarded (active (merchant_var f)) (by_contains L Merchant (merchant_var f)) d4 = Inr d5"
    using guarded_by_contains_ok [OF e] by blast
  obtain d6 where 6: "guarded (active (paid_var f)) (by_contains L Paid (paid_var f)) d5 = Inr d6"
    using guarded_by_contains_ok [OF p] by blast
  obtain d7 where 7: "guarded (lower (strip (desc_var f)) \<noteq> []) (by_desc L (lower (strip (desc_var f)))) d6 = Inr d7"
    using guarded_by_desc_ok [OF t] by blast
  show ?thesis unfolding apply_filters_def by (simp add: 1 2 3 4 5 6 7)
qed

lemma matched_ok:
  assumes "text_ok L f"
  shows "\<exists>m. matched L f rows = Inr m"
  using apply_filters_ok [OF assms, of "dropna_date rows"] by (auto simp: matched_def)

lemma analyze_ok:
  assumes "matched L (filters st) rows = Inr m" and "df st = Some rows"
  shows "\<exists>st'. analyze L st = Inr st'"
  using assms by (simp add: analyze_def Let_def)

lemma bnd_abc: "date_bnd ref_lib (Some ''abc'') = Malformed"
  by (simp add: date_bnd_def strip_def is_space_def eval_lib)

lemma bnd_2024: "date_bnd ref_lib (Some ''2024-01-01'') = Bound (Some (2024, 1, 1))"
  by (simp add: date_bnd_def strip_def is_space_def eval_lib)

lemma float_x: "get_float ref_lib (Some ''1x'') = Malformed"
  by (simp add: get_float_def strip_def is_space_def eval_lib)

lemma float_100: "get_float ref_lib (Some ''100'') = Bound 100"
  by (simp add: get_float_def strip_def is_space_def eval_lib)

lemma literal_food: "str_contains L True ''food'' \<noteq> None"
  by (simp add: str_contains_def is_literal_def regex_special_def)

lemma text_ok_food:
  "text_ok L (no_filters\<lparr>category_var := ''food'', date_start := a, date_end := b,
                         exp_min := c, inc_max := e\<rparr>)"
  by (simp add: text_ok_def no_filters_def active_def strip_def lower_def literal_food)

lemma matched_food:
  "matched ref_lib (no_filters\<lparr>category_var := ''food''\<rparr>) dec_jan_feb
     = Inr [mk_row 0 (2023, 12, 1) ''Food'' ''Cafe'' 50 0, mk_row 1 (2024, 1, 5) ''Food'' ''Cafe'' 50 0]"
  by (simp add: matched_def advanced_def no_filters_def dec_jan_feb_def mk_row_def
      apply_filters_def guarded_def active_def dropna_date_def by_contains_def query_pred_def
      str_contains_def eval_text)

lemma matched_food_from_2024:
  "matched ref_lib (no_filters\<lparr>category_var := ''food'', date_start := Some ''2024-01-01''\<rparr>)
      dec_jan_feb
     = Inr [mk_row 1 (2024, 1, 5) ''Food'' ''Cafe'' 50 0]"
  by (simp add: matched_def advanced_def bnd_2024 no_filters_def dec_jan_feb_def mk_row_def
      apply_filters_def guarded_def active_def dropna_date_def by_contains_def query_pred_def
      str_contains_def ge_date_def eval_text)

text \<open>
  C4 (as amended). When the categorical, text, year and month filters are well-formed,
  the query completes without error, whatever the range bounds are. A malformed range
  bound ends the range filtering where it is met: the bounds applied before it (date
  start, then date end, then the four amount bounds together, which are all converted
  before the first of them is applied) stay applied, the malformed bound and every
  bound not yet applied are skipped. The result is that of the same filters with the
  malformed bound and the bounds after it absent.
\<close>

theorem malformed_bound_ends_range_filtering:
  assumes "text_ok L f" and "df st = Some rows" and "filters st = f"
  shows "(\<exists>st'. analyze L st = Inr st') \<and> (\<exists>m. matched L f rows = Inr m)
   \<and> (date_bnd L (date_start f) = Malformed \<longrightarrow>
      matched L f rows
        = matched L (f\<lparr>date_start := None, date_end := None, exp_min := None,
                       exp_max := None, inc_min := None, inc_max := None\<rparr>) rows)
   \<and> (date_bnd L (date_start f) \<noteq> Malformed \<and> date_bnd L (date_end f) = Malformed \<longrightarrow>
      matched L f rows
        = matched L (f\<lparr>date_end := None, exp_min := None,
                       exp_max := None, inc_min := None, inc_max := None\<rparr>) rows)
   \<and> (date_bnd L (date_start f) \<noteq> Malformed \<and> date_bnd L (date_end f) \<noteq> Malformed
       \<and> (get_float L (exp_min f) = Malformed \<or> get_float L (exp_max f) = Malformed
          \<or> get_float L (inc_min f) = Malformed \<or> get_float L (inc_max f) = Malformed) \<longrightarrow>
      matched L f rows
        = matched L (f\<lparr>exp_min := None, exp_max := None, inc_min := None,
                       inc_max := None\<rparr>) rows)"
proof (intro conjI impI)
  obtain m where m: "matched L f rows = Inr m" using matched_ok [OF assms(1)] by blast
  then show "\<exists>m. matched L f rows = Inr m" by blast
  from m assms(3) have "matched L (filters st) rows = Inr m" by simp
  then show "\<exists>st'. analyze L st = Inr st'" using assms(2) by (rule analyze_ok)
next
  assume "date_bnd L (date_start f) = Malformed"
  then show "matched L f rows
        = matched L (f\<lparr>date_start := None, date_end := None, exp_min := None,
                       exp_max := None, inc_min := None, inc_max := None\<rparr>) rows"
    unfolding matched_def using advanced_start_malformed [of L f] by simp
next
  assume "date_bnd L (date_start f) \<noteq> Malformed \<and> date_bnd L (date_end f) = Malformed"
  then show "matched L f rows
        = matched L (f\<lparr>date_end := None, exp_min := None,
                       exp_max := None, inc_min := None, inc_max := None\<rparr>) rows"
    unfolding matched_def using advanced_end_malformed [of L f] by simp
next
  assume "date_bnd L (date_start f) \<noteq> Malformed \<and> date_bnd L (date_end f) \<noteq> Malformed
       \<and> (get_float L (exp_min f) = Malformed \<or> get_float L (exp_max f) = Malformed
          \<or> get_float L (inc_min f) = Malformed \<or> get_float L (inc_max f) = Malformed)"
  then show "matched L f rows
        = matched L (f\<lparr>exp_min := None, exp_max := None, inc_min := None,
                       inc_max := None\<rparr>) rows"
    unfolding matched_def using advanced_amount_malformed [of L f] by simp
qed

theorem malformed_bound_ends_range_filtering_witness:
  "text_ok ref_lib (no_filters\<lparr>category_var := ''food'', date_start := Some ''abc'',
                               date_end := None, exp_min := Some ''100'', inc_max := None\<rparr>)
   \<and> date_bnd ref_lib (Some ''abc'') = Malformed
   \<and> (\<exists>st'. analyze ref_lib (app_of dec_jan_feb
               (no_filters\<lparr>category_var := ''food'', date_start := Some ''abc'',
                            date_end := None, exp_min := Some ''100'', inc_max := None\<rparr>))
             = Inr st')
   \<and> matched ref_lib (no_filters\<lparr>category_var := ''food'', date_start := Some ''abc'',
                                  date_end := None, exp_min := Some ''100'', inc_max := None\<rparr>)
        dec_jan_feb
       = Inr [mk_row 0 (2023, 12, 1) ''Food'' ''Cafe'' 50 0, mk_row 1 (2024, 1, 5) ''Food'' ''Cafe'' 50 0]
   \<and> date_bnd ref_lib (Some ''2024-01-01'') = Bound (Some (2024, 1, 1))
   \<and> matched ref_lib (no_filters\<lparr>category_var := ''food'', date_start := Some ''2024-01-01'',
                                  date_end := Some ''abc'', exp_min := Some ''100'',
                                  inc_max := None\<rparr>) dec_jan_feb
       = Inr [mk_row 1 (2024, 1, 5) ''Food'' ''Cafe'' 50 0]
   \<and> get_float ref_lib (Some ''1x'') = Malformed
   \<and> get_float ref_lib (Some ''100'') = Bound 100
   \<and> matched ref_lib (no_filters\<lparr>category_var := ''food'', date_start := Some ''2024-01-01'',
                                  date_end := None, exp_min := Some ''100'',
                                  inc_max := Some ''1x''\<rparr>) dec_jan_feb
       = Inr [mk_row 1 (2024, 1, 5) ''Food'' ''Cafe'' 50 0]"
proof -
  let ?a = "no_filters\<lparr>category_var := ''food'', date_start := Some ''abc'', date_end := None,
                       exp_min := Some ''100'', inc_max := None\<rparr>"
  let ?b = "no_filters\<lparr>category_var := ''food'', date_start := Some ''2024-01-01'',
                       date_end := Some ''abc'', exp_min := Some ''100'', inc_max := None\<rparr>"
  let ?c = "no_filters\<lparr>category_var := ''food'', date_start := Some ''2024-01-01'',
                       date_end := None, exp_min := Some ''100'', inc_max := Some ''1x''\<rparr>"
  have ea: "?a\<lparr>date_start := None, date_end := None, exp_min := None,
               exp_max := None, inc_min := None, inc_max := None\<rparr>
            = no_filters\<lparr>category_var := ''food''\<rparr>"
    by (simp add: no_filters_def)
  have eb: "?b\<lparr>date_end := None, exp_min := None,
               exp_max := None, inc_min := None, inc_max := None\<rparr>
            = no_filters\<lparr>category_var := ''food'', date_start := Some ''2024-01-01''\<rparr>"
    by (simp add: no_filters_def)
  have ec: "?c\<lparr>exp_min := None, exp_max := None, inc_min := None, inc_max := None\<rparr>
            = no_filters\<lparr>category_var := ''food'', date_start := Some ''2024-01-01''\<rparr>"
    by (simp add: no_filters_def)
  have da: "df (app_of dec_jan_feb ?a) = Some dec_jan_feb" "filters (app_of dec_jan_feb ?a) = ?a"
    and db: "df (app_of dec_jan_feb ?b) = Some dec_jan_feb" "filters (app_of dec_jan_feb ?b) = ?b"
    and dc: "df (app_of dec_jan_feb ?c) = Some dec_jan_feb" "filters (app_of dec_jan_feb ?c) = ?c"
    by (simp_all add: app_of_def)
  have ta: "text_ok ref_lib ?a" and tb: "text_ok ref_lib ?b" and tc: "text_ok ref_lib ?c"
    by (rule text_ok_food)+
  have ma: "date_bnd ref_lib (date_start ?a) = Malformed" by (simp add: bnd_abc)
  have mb: "date_bnd ref_lib (date_start ?b) \<noteq> Malformed \<and> date_bnd ref_lib (date_end ?b) = Malformed"
    by (simp add: bnd_abc bnd_2024)
  have mc: "date_bnd ref_lib (date_start ?c) \<noteq> Malformed \<and> date_bnd ref_lib (date_end ?c) \<noteq> Malformed
       \<and> (get_float ref_lib (exp_min ?c) = Malformed \<or> get_float ref_lib (exp_max ?c) = Malformed
          \<or> get_float ref_lib (inc_min ?c) = Malformed \<or> get_float ref_lib (inc_max ?c) = Malformed)"
    by (simp add: bnd_2024 float_x)
  note A = malformed_bound_ends_range_filtering [OF ta da]
  note B = malformed_bound_ends_range_filtering [OF tb db]
  note C = malformed_bound_ends_range_filtering [OF tc dc]
  have 0: "\<exists>st'. analyze ref_lib (app_of dec_jan_feb ?a) = Inr st'" using A by blast
  have "matched ref_lib ?a dec_jan_feb
          = matched ref_lib (no_filters\<lparr>category_var := ''food''\<rparr>) dec_jan_feb"
    using A ma unfolding ea by blast
  then have 1: "matched ref_lib ?a dec_jan_feb
      = Inr [mk_row 0 (2023, 12, 1) ''Food'' ''Cafe'' 50 0, mk_row 1 (2024, 1, 5) ''Food'' ''Cafe'' 50 0]"
    by (simp only: matched_food)
  have "matched ref_lib ?b dec_jan_feb
          = matched ref_lib (no_filters\<lparr>category_var := ''food'',
                                          date_start := Some ''2024-01-01''\<rparr>) dec_jan_feb"
    using B mb unfolding eb by blast
  then have 2: "matched ref_lib ?b dec_jan_feb = Inr [mk_row 1 (2024, 1, 5) ''Food'' ''Cafe'' 50 0]"
    by (simp only: matched_food_from_2024)
  have "matched ref_lib ?c dec_jan_feb
          = matched ref_lib (no_filters\<lparr>category_var := ''food'',
                                          date_start := Some ''2024-01-01''\<rparr>) dec_jan_feb"
    using C mc unfolding ec by blast
  then have 3: "matched ref_lib ?c dec_jan_feb = Inr [mk_row 1 (2024, 1, 5) ''Food'' ''Cafe'' 50 0]"
    by (simp only: matched_food_from_2024)
  show ?thesis using ta bnd_abc bnd_2024 float_x float_100 0 1 2 3 by simp
qed

text \<open>
  C4 as stated fails: with the malformed date start \<open>abc\<close> and the minimum expense 100,
  the record with expense 50 is returned; with the date start absent it is not.
\<close>

theorem malformed_start_counterexample:
  "matched ref_lib (no_filters\<lparr>date_start := Some ''abc'', exp_min := Some ''100''\<rparr>) fifty = Inr fifty
   \<and> matched ref_lib (no_filters\<lparr>date_start := None, exp_min := Some ''100''\<rparr>) fifty = Inr []"
  by (simp add: matched_def advanced_def bnd_abc float_100 no_filters_def fifty_def mk_row_def
      apply_filters_def guarded_def active_def dropna_date_def eval_text)

subsection \<open>The rows a query returns\<close>

lemma guarded_by_contains:
  "guarded b (by_contains L k v) d = Inr d' \<Longrightarrow>
   d' = filter (\<lambda>r. b \<longrightarrow> query_accepts L k v r = Some True) d"
  by (auto simp: guarded_def by_contains_def query_accepts_def split: if_splits option.splits)

lemma guarded_by_year_Inr:
  "guarded b (by_year L v) d = Inr d' \<Longrightarrow>
   d' = filter (\<lambda>r. b \<longrightarrow> (case py_int L v of Some y \<Rightarrow> year_is y r | None \<Rightarrow> False)) d"
  by (auto simp: guarded_def by_year_def split: if_splits option.splits)

lemma guarded_by_month_Inr:
  "guarded b (by_month L v) d = Inr d' \<Longrightarrow>
   d' = filter (\<lambda>r. b \<longrightarrow> (case py_int L v of Some m \<Rightarrow> month_is m r | None \<Rightarrow> False)) d"
  by (auto simp: guarded_def by_month_def split: if_splits option.splits)

lemma guarded_by_desc_Inr:
  "guarded b (by_desc L v) d = Inr d' \<Longrightarrow>
   d' = filter (\<lambda>r. b \<longrightarrow> (case str_contains L False v of Some m \<Rightarrow> desc_pred L m r | None \<Rightarrow> False)) d"
  by (auto simp: guarded_def by_desc_def split: if_splits option.splits)

lemma apply_filters_Inr:
  assumes "apply_filters L f d0 = Inr d"
  shows "d = filter (satisfies_text L f) d0"
proof -
  from assms obtain d1 d2 d3 d4 d5 d6 where
    1: "guarded (active (report_var f)) (by_contains L Report (report_var f)) d0 = Inr d1" and
    2: "guarded (active (year_var f)) (by_year L (year_var f)) d1 = Inr d2" and
    3: "guarded (active (month_var f)) (by_month L (month_var f)) d2 = Inr d3" and
    4: "guarded (active (category_var f)) (by_contains L Category (category_var f)) d3 = Inr d4" and
    5: "guarded (active (merchant_var f)) (by_contains L Merchant (merchant_var f)) d4 = Inr d5" and
    6: "guarded (active (paid_var f)) (by_contains L Paid (paid_var f)) d5 = Inr d6" and
    7: "guarded (lower (strip (desc_var f)) \<noteq> []) (by_desc L (lower (strip (desc_var f)))) d6 = Inr d"
    unfolding apply_filters_def bindE_eq_Inr by blast
  show ?thesis
    unfolding guarded_by_desc_Inr [OF 7] guarded_by_contains [OF 6] guarded_by_contains [OF 5]
      guarded_by_contains [OF 4] guarded_by_month_Inr [OF 3] guarded_by_year_Inr [OF 2]
      guarded_by_contains [OF 1] filter_filter
    by (rule filter_cong [OF refl]) (auto simp: satisfies_text_def)
qed

lemma in_bound_simps [simp]:
  "in_bound (Bound v) p r = p v r" "in_bound Absent p r" "in_bound Malformed p r"
  by (simp_all add: in_bound_def)

lemma narrow_filter: "narrow b p d = filter (in_bound b p) d"
  by (cases b) (simp_all cong: filter_cong)

lemma advanced_sublist: "\<exists>P. advanced L f d = filter P d"
proof -
  have t: "d = filter (\<lambda>r. True) d" by simp
  show ?thesis
    unfolding advanced_def Let_def narrow_filter filter_filter
    by (auto intro: t exI [of _ "\<lambda>r. True"])
qed

lemma advanced_well_formed:
  "well_formed L f \<Longrightarrow> advanced L f d = filter (satisfies_ranges L f) d"
  unfolding advanced_def Let_def narrow_filter filter_filter well_formed_def
  by (auto simp: satisfies_ranges_def intro: filter_cong)


lemma matched_Inr:
  assumes "matched L f rows = Inr m"
  shows "\<exists>P. m = filter P (filter (satisfies_text L f) (dropna_date rows))"
    and "well_formed L f \<Longrightarrow>
         m = filter (satisfies_ranges L f) (filter (satisfies_text L f) (dropna_date rows))"
proof -
  from assms obtain d where a: "apply_filters L f (dropna_date rows) = Inr d"
    and m: "m = advanced L f d"
    unfolding matched_def bindE_eq_Inr by auto
  have d: "d = filter (satisfies_text L f) (dropna_date rows)" by (rule apply_filters_Inr [OF a])
  show "\<exists>P. m = filter P (filter (satisfies_text L f) (dropna_date rows))"
    using advanced_sublist [of L f d] m d by simp
  show "m = filter (satisfies_ranges L f) (filter (satisfies_text L f) (dropna_date rows))"
    if "well_formed L f"
    using advanced_well_formed [OF that, of d] m d by simp
qed

lemma float_25: "get_float ref_lib (Some ''25'') = Bound 25"
  by (simp add: get_float_def strip_def is_space_def eval_lib)

lemma float_10: "get_float ref_lib (Some ''10'') = Bound 10"
  by (simp add: get_float_def strip_def is_space_def eval_lib)

lemma bnd_zzz: "date_bnd ref_lib (Some ''zzz'') = Malformed"
  by (simp add: date_bnd_def strip_def is_space_def eval_lib)

lemma matched_food_25:
  "matched ref_lib (no_filters\<lparr>category_var := ''food'', exp_min := Some ''25''\<rparr>) food_travel
     = Inr [mk_row 0 (2024, 1, 5) ''Food'' ''Cafe'' 30 0]"
  by (simp add: matched_def advanced_def float_25 no_filters_def food_travel_def mk_row_def
      apply_filters_def guarded_def active_def dropna_date_def by_contains_def query_pred_def
      str_contains_def eval_text)




subsection \<open>The summary table and the totals\<close>

lemma sum_bal:
  "sum_list (map (\<lambda>r. income_amount (row r) - expense_amount (row r)) g)
     = sum_list (map (\<lambda>r. income_amount (row r)) g) - sum_list (map (\<lambda>r. expense_amount (row r)) g)"
  by (induction g) auto

lemma keys_sum_grp:
  "map grp_key (sum_grp L d) = sort_key pair_ord (remdups (map gkey (filter has_key d)))"
  by (simp add: sum_grp_def grp_key_def group_row_def Let_def comp_def)

lemma distinct_sum_grp: "distinct (map grp_key (sum_grp L d))"
  by (simp add: keys_sum_grp)

lemma set_sum_grp: "set (map grp_key (sum_grp L d)) = gkey ` {r \<in> set d. has_key r}"
  by (simp add: keys_sum_grp)

lemma row_sum_grp:
  assumes "g \<in> set (sum_grp L d)"
  shows "g = group_row L d (grp_key g)"
  using assms by (auto simp: sum_grp_def grp_key_def group_row_def Let_def)

lemma grp_food_travel:
  "sum_grp ref_lib (rev (map with_bal food_travel)) =
     [\<lparr>g_category = Txt ''Food'', g_merchant = Txt ''Cafe'', g_count = 2, g_inc = 0, g_exp = 50, g_total = - 50\<rparr>,
      \<lparr>g_category = Txt ''Travel'', g_merchant = Txt ''Rail'', g_count = 1, g_inc = 0, g_exp = 50, g_total = - 50\<rparr>]"
  by (simp add: food_travel_def mk_row_def with_bal_def sum_grp_def group_row_def gkey_def
      has_key_def pair_ord_def ref_lib_def)




subsection \<open>Stable ids under add and remove\<close>

lemma analyze_keeps:
  assumes "analyze L st = Inr st'"
  shows "df st' = df st \<and> edit_mode st' = edit_mode st"
proof (cases "df st")
  case None
  with assms show ?thesis by (simp add: analyze_def)
next
  case (Some rows)
  show ?thesis
  proof (cases "matched L (filters st) rows")
    case (Inl e)
    with assms Some show ?thesis by (simp add: analyze_def)
  next
    case (Inr m)
    show ?thesis
    proof (cases "m = []")
      case True
      with assms Some Inr show ?thesis by (auto simp: analyze_def)
    next
      case False
      from assms show ?thesis unfolding analyze_result [OF Some Inr False] by auto
    qed
  qed
qed

lemma say_keeps [simp]: "df (say m st) = df st" "edit_mode (say m st) = edit_mode st"
  "dialogs (say m st) = dialogs st @ [m]"
  by (simp_all add: say_def)

lemma save_add_valid:
  assumes "df st = Some rows" and "to_datetime L (e_date e) = Inr dt"
    and "py_float L (e_income e) = Some inc" and "py_float L (e_expense e) = Some ex"
  shows "df (save_add L e st) = Some (ignore_index (rows @ [row_data e dt inc ex (new_idx rows)]))"
    and "edit_mode (save_add L e st) = edit_mode st"
proof -
  let ?st1 = "say (ShowInfo ''Record added.'')
                (st\<lparr>df := Some (ignore_index (rows @ [row_data e dt inc ex (new_idx rows)]))\<rparr>)"
  have s: "save_add L e st = (case analyze L ?st1 of
                               Inl ValueError \<Rightarrow> say (ShowError ''Validation Error'') ?st1
                             | Inl _ \<Rightarrow> say (ShowError ''Error'') ?st1
                             | Inr st2 \<Rightarrow> st2\<lparr>btn_save_shown := True\<rparr>)"
    using assms by (simp add: save_add_def Let_def)
  have k: "df ?st1 = Some (ignore_index (rows @ [row_data e dt inc ex (new_idx rows)]))"
    "edit_mode ?st1 = edit_mode st"
    by simp_all
  show "df (save_add L e st) = Some (ignore_index (rows @ [row_data e dt inc ex (new_idx rows)]))"
  proof (cases "analyze L ?st1")
    case (Inl x)
    then show ?thesis unfolding s using k by (cases x) simp_all
  next
    case (Inr st2)
    then show ?thesis unfolding s using k analyze_keeps [OF Inr] by simp
  qed
  show "edit_mode (save_add L e st) = edit_mode st"
  proof (cases "analyze L ?st1")
    case (Inl x)
    then show ?thesis unfolding s using k by (cases x) simp_all
  next
    case (Inr st2)
    then show ?thesis unfolding s using k analyze_keeps [OF Inr] by simp
  qed
qed

lemma save_add_cases:
  "df (save_add L e st) = df st
   \<or> (\<exists>rows dt inc ex. df st = Some rows
         \<and> df (save_add L e st) = Some (ignore_index (rows @ [row_data e dt inc ex (new_idx rows)])))"
proof (cases "to_datetime L (e_date e)")
  case (Inl a)
  then show ?thesis by (simp add: save_add_def)
next
  case (Inr dt)
  show ?thesis
  proof (cases "py_float L (e_income e)")
    case None
    with Inr show ?thesis by (simp add: save_add_def)
  next
    case (Some inc)
    note inc = this
    show ?thesis
    proof (cases "py_float L (e_expense e)")
      case None
      with Inr inc show ?thesis by (simp add: save_add_def)
    next
      case (Some ex)
      note ex = this
      show ?thesis
      proof (cases "df st")
        case None
        with Inr inc ex show ?thesis by (simp add: save_add_def)
      next
        case (Some rows)
        from save_add_valid(1) [OF Some Inr inc ex] Some show ?thesis by blast
      qed
    qed
  qed
qed

lemma drop_selected_filter: "\<exists>P. fst (drop_selected sel rows n) = filter P rows"
proof (induction sel arbitrary: rows n)
  case Nil
  show ?case by (auto intro: exI [of _ "\<lambda>r. True"])
next
  case (Cons i sel)
  show ?case
  proof (cases "i \<in> set (map idx rows)")
    case True
    from Cons [of "filter (\<lambda>r. idx r \<noteq> i) rows" "n + 1"] obtain P
      where "fst (drop_selected sel (filter (\<lambda>r. idx r \<noteq> i) rows) (n + 1))
               = filter P (filter (\<lambda>r. idx r \<noteq> i) rows)" by blast
    with True show ?thesis by (auto simp del: filter_filter simp: filter_filter)
  next
    case False
    with Cons [of rows n] show ?thesis by simp
  qed
qed

lemma delete_record_df:
  assumes "df st = Some rows"
  shows "df (fst (delete_record L sel yes st)) = Some rows
         \<or> df (fst (delete_record L sel yes st)) = Some (fst (drop_selected sel rows 0))"
  using assms analyze_keeps [of L "st\<lparr>df := Some (fst (drop_selected sel rows 0))\<rparr>"]
  by (auto simp: delete_record_def Let_def split: sum.splits)

lemma delete_record_go:
  assumes "df st = Some rows" and "edit_mode st" and "sel \<noteq> []"
  shows "df (fst (delete_record L sel True st)) = Some (fst (drop_selected sel rows 0))"
    and "edit_mode (fst (delete_record L sel True st))"
  using assms analyze_keeps [of L "st\<lparr>df := Some (fst (drop_selected sel rows 0))\<rparr>"]
  by (auto simp: delete_record_def Let_def split: sum.splits)

lemma delete_record_none:
  assumes "df st = Some rows" and "edit_mode st" and "sel \<noteq> []"
    and "snd (drop_selected sel rows 0) = 0"
  shows "dialogs (fst (delete_record L sel True st))
           = dialogs st @ [ShowWarning ''Could not delete records.'']"
  using assms by (simp add: delete_record_def Let_def)

lemma original_index_enumerate:
  "map (\<lambda>x. original_index (snd x)) (enumerate n rows) = map original_index rows"
  by (induction rows arbitrary: n) simp_all

lemma original_index_ignore_index:
  "map original_index (ignore_index rows) = map original_index rows"
  by (simp add: ignore_index_def case_prod_beta comp_def original_index_enumerate)

lemma new_idx_fresh: "new_idx rows \<notin> set (map original_index rows)"
proof (cases "rows = []")
  case True
  then show ?thesis by simp
next
  case False
  have "x < new_idx rows" if "x \<in> set (map original_index rows)" for x
  proof -
    have "x \<le> Max (set (map original_index rows))" using that by (intro Max_ge) auto
    then show ?thesis using False by (simp add: new_idx_def)
  qed
  then show ?thesis by blast
qed

lemma step_ids_distinct: "ids_distinct st \<Longrightarrow> ids_distinct (step L st x)"
proof (cases x)
  case (Add e)
  assume "ids_distinct st"
  then obtain rows where r: "df st = Some rows" "distinct (map original_index rows)"
    by (auto simp: ids_distinct_def)
  from save_add_cases [of L e st] show ?thesis
  proof
    assume "df (save_add L e st) = df st"
    with r Add show ?thesis by (simp add: ids_distinct_def)
  next
    assume "\<exists>rows dt inc ex. df st = Some rows
         \<and> df (save_add L e st) = Some (ignore_index (rows @ [row_data e dt inc ex (new_idx rows)]))"
    then obtain dt inc ex where
      "df (save_add L e st) = Some (ignore_index (rows @ [row_data e dt inc ex (new_idx rows)]))"
      using r by auto
    moreover have "distinct (map original_index (rows @ [row_data e dt inc ex (new_idx rows)]))"
      using r new_idx_fresh [of rows] by (simp add: row_data_def)
    ultimately show ?thesis using Add
      by (simp add: ids_distinct_def original_index_ignore_index del: map_append)
  qed
next
  case (Remove sel)
  assume "ids_distinct st"
  then obtain rows where r: "df st = Some rows" "distinct (map original_index rows)"
    by (auto simp: ids_distinct_def)
  obtain P where P: "fst (drop_selected sel rows 0) = filter P rows"
    using drop_selected_filter by blast
  have "distinct (map original_index (filter P rows))"
    using r(2) by (rule distinct_map_filter)
  with delete_record_df [OF r(1), of L sel True] r P Remove show ?thesis
    by (auto simp: ids_distinct_def)
qed

lemma run_ids_distinct: "ids_distinct st \<Longrightarrow> ids_distinct (run L st ops)"
  unfolding run_def by (induction ops arbitrary: st) (simp_all add: step_ids_distinct)

text \<open>
  C3 (as amended). After a load and any sequence of add and remove operations, no two
  live records share a stable id, and an add that passes validation appends a record
  whose stable id is the maximum existing one plus 1 (0 for an empty store), distinct
  from the id of every live record. Ids of deleted records are not remembered.
\<close>

theorem add_assigns_next_id:
  assumes "df st = Some rows0" and "distinct (map original_index rows0)"
    and "to_datetime L (e_date e) = Inr dt"
    and "py_float L (e_income e) = Some inc" and "py_float L (e_expense e) = Some ex"
  shows "\<exists>rows. df (run L st ops) = Some rows \<and> distinct (map original_index rows)
           \<and> df (save_add L e (run L st ops))
               = Some (ignore_index (rows @ [row_data e dt inc ex (new_idx rows)]))
           \<and> original_index (row_data e dt inc ex (new_idx rows))
               = (if rows = [] then 0 else Max (set (map original_index rows)) + 1)
           \<and> original_index (row_data e dt inc ex (new_idx rows)) \<notin> set (map original_index rows)
           \<and> distinct (map original_index (ignore_index (rows @ [row_data e dt inc ex (new_idx rows)])))"
proof -
  have "ids_distinct st" using assms(1,2) by (auto simp: ids_distinct_def)
  then have "ids_distinct (run L st ops)" by (rule run_ids_distinct)
  then obtain rows where r: "df (run L st ops) = Some rows" "distinct (map original_index rows)"
    by (auto simp: ids_distinct_def)
  have a: "df (save_add L e (run L st ops))
             = Some (ignore_index (rows @ [row_data e dt inc ex (new_idx rows)]))"
    by (rule save_add_valid(1) [OF r(1) assms(3-5)])
  have i: "original_index (row_data e dt inc ex (new_idx rows))
             = (if rows = [] then 0 else Max (set (map original_index rows)) + 1)"
    by (simp add: row_data_def new_idx_def)
  have j: "original_index (row_data e dt inc ex (new_idx rows)) \<notin> set (map original_index rows)"
    using new_idx_fresh [of rows] by (simp add: row_data_def)
  have d: "distinct (map original_index (ignore_index (rows @ [row_data e dt inc ex (new_idx rows)])))"
    unfolding original_index_ignore_index using r(2) j by simp
  from r a i j d show ?thesis by blast
qed


lemma taxi_valid:
  "to_datetime ref_lib (e_date taxi) = Inr (Some (2024, 3, 1))"
  "py_float ref_lib (e_income taxi) = Some 0"
  "py_float ref_lib (e_expense taxi) = Some (25 / 2)"
  by (simp_all add: taxi_def eval_lib)

lemma two_rows_ids: "map original_index two_rows = [0, 1]" "map idx two_rows = [0, 1]"
  "distinct (map original_index two_rows)"
  by (simp_all add: two_rows_def mk_row_def)

theorem add_assigns_next_id_witness:
  "df (app_of two_rows no_filters) = Some two_rows
   \<and> distinct (map original_index two_rows)
   \<and> to_datetime ref_lib (e_date taxi) = Inr (Some (2024, 3, 1))
   \<and> py_float ref_lib (e_income taxi) = Some 0
   \<and> py_float ref_lib (e_expense taxi) = Some (25 / 2)
   \<and> (\<exists>rows. df (run ref_lib (app_of two_rows no_filters) [Remove [1]]) = Some rows
         \<and> distinct (map original_index rows)
         \<and> df (save_add ref_lib taxi (run ref_lib (app_of two_rows no_filters) [Remove [1]]))
             = Some (ignore_index (rows @ [row_data taxi (Some (2024, 3, 1)) 0 (25 / 2) (new_idx rows)]))
         \<and> original_index (row_data taxi (Some (2024, 3, 1)) 0 (25 / 2) (new_idx rows))
             \<notin> set (map original_index rows))"
proof -
  have d: "df (app_of two_rows no_filters) = Some two_rows" by (simp add: app_of_def)
  from add_assigns_next_id [OF d two_rows_ids(3) taxi_valid, of "[Remove [1]]"]
    d two_rows_ids(3) taxi_valid
  show ?thesis by blast
qed

lemma remove_then_add:
  assumes "i \<in> set (map idx two_rows)"
  shows "df (run ref_lib (app_of two_rows no_filters) [Remove [i], Add taxi])
     = Some (ignore_index (filter (\<lambda>r. idx r \<noteq> i) two_rows
              @ [row_data taxi (Some (2024, 3, 1)) 0 (25 / 2)
                   (new_idx (filter (\<lambda>r. idx r \<noteq> i) two_rows))]))"
    and "edit_mode (run ref_lib (app_of two_rows no_filters) [Remove [i], Add taxi])"
proof -
  let ?st0 = "app_of two_rows no_filters"
  let ?s1 = "fst (delete_record ref_lib [i] True ?st0)"
  have d0: "df ?st0 = Some two_rows" and e0: "edit_mode ?st0" by (simp_all add: app_of_def)
  have n: "[i] \<noteq> []" by simp
  have d1: "df ?s1 = Some (filter (\<lambda>r. idx r \<noteq> i) two_rows)"
    using delete_record_go(1) [OF d0 e0 n, of ref_lib] assms by simp
  have e1: "edit_mode ?s1" by (rule delete_record_go(2) [OF d0 e0 n])
  have r: "run ref_lib ?st0 [Remove [i], Add taxi] = save_add ref_lib taxi ?s1"
    by (simp add: run_def)
  show "df (run ref_lib ?st0 [Remove [i], Add taxi])
     = Some (ignore_index (filter (\<lambda>r. idx r \<noteq> i) two_rows
              @ [row_data taxi (Some (2024, 3, 1)) 0 (25 / 2)
                   (new_idx (filter (\<lambda>r. idx r \<noteq> i) two_rows))]))"
    unfolding r by (rule save_add_valid(1) [OF d1 taxi_valid])
  show "edit_mode (run ref_lib ?st0 [Remove [i], Add taxi])"
    unfolding r using save_add_valid(2) [OF d1 taxi_valid] e1 by simp
qed

text \<open>
  C3 as stated fails: after the record with the highest id (1) is deleted, the next
  record added gets id 1 again.
\<close>

theorem deleted_id_reused_counterexample:
  "map original_index (store (app_of two_rows no_filters)) = [0, 1]
   \<and> map report_name (store (app_of two_rows no_filters)) = [Txt ''R1'', Txt ''R1'']
   \<and> map original_index
        (store (run ref_lib (app_of two_rows no_filters) [Remove [1], Add taxi])) = [0, 1]
   \<and> map report_name
        (store (run ref_lib (app_of two_rows no_filters) [Remove [1], Add taxi]))
       = [Txt ''R1'', Txt ''Manual Entry'']"
proof -
  have i: "1 \<in> set (map idx two_rows)" by (simp add: two_rows_ids)
  have 0: "store (app_of two_rows no_filters) = two_rows" by (simp add: store_def app_of_def)
  have 1: "store (run ref_lib (app_of two_rows no_filters) [Remove [1], Add taxi])
      = ignore_index (filter (\<lambda>r. idx r \<noteq> 1) two_rows
              @ [row_data taxi (Some (2024, 3, 1)) 0 (25 / 2)
                   (new_idx (filter (\<lambda>r. idx r \<noteq> 1) two_rows))])"
    by (simp add: store_def remove_then_add(1) [OF i])
  show ?thesis
    unfolding 0 1
    by (simp add: two_rows_def mk_row_def ignore_index_def row_data_def new_idx_def)
qed

lemma after_delete_add_df:
  "df after_delete_add
     = Some [(mk_row 1 (2024, 2, 6) ''Travel'' ''Rail'' 50 0)\<lparr>idx := 0\<rparr>,
             (row_data taxi (Some (2024, 3, 1)) 0 (25 / 2) 2)\<lparr>idx := 1\<rparr>]"
    "edit_mode after_delete_add"
proof -
  have i: "0 \<in> set (map idx two_rows)" by (simp add: two_rows_ids)
  show "df after_delete_add
     = Some [(mk_row 1 (2024, 2, 6) ''Travel'' ''Rail'' 50 0)\<lparr>idx := 0\<rparr>,
             (row_data taxi (Some (2024, 3, 1)) 0 (25 / 2) 2)\<lparr>idx := 1\<rparr>]"
    unfolding after_delete_add_def remove_then_add(1) [OF i]
    by (simp add: two_rows_def mk_row_def ignore_index_def new_idx_def)
  show "edit_mode after_delete_add"
    unfolding after_delete_add_def by (rule remove_then_add(2) [OF i])
qed

text \<open>
  C9 (code bug). \<open>delete_record\<close> looks the ID of the selected item up among the index
  labels, not in the column \<open>original_index\<close>. After a delete followed by an add the two
  differ (labels 0, 1; ids 1, 2): deleting ID 2 reports "Could not delete records." and
  leaves the store as it is, although the record with id 2 exists; deleting ID 1 removes
  the record with id 2 and keeps the record with id 1.
\<close>

theorem delete_goes_by_index_label:
  "map original_index (store after_delete_add) = [1, 2]
   \<and> map idx (store after_delete_add) = [0, 1]
   \<and> map original_index (store (fst (delete_record ref_lib [2] True after_delete_add))) = [1, 2]
   \<and> dialogs (fst (delete_record ref_lib [2] True after_delete_add))
       = dialogs after_delete_add @ [ShowWarning ''Could not delete records.'']
   \<and> map original_index (store (fst (delete_record ref_lib [1] True after_delete_add))) = [1]"
proof -
  let ?rows = "[(mk_row 1 (2024, 2, 6) ''Travel'' ''Rail'' 50 0)\<lparr>idx := 0\<rparr>,
             (row_data taxi (Some (2024, 3, 1)) 0 (25 / 2) 2)\<lparr>idx := 1\<rparr>]"
  note d = after_delete_add_df(1) and e = after_delete_add_df(2)
  have n: "[2::int] \<noteq> []" "[1::int] \<noteq> []" by simp_all
  have a: "drop_selected [2] ?rows 0 = (?rows, 0)" by (simp add: mk_row_def row_data_def)
  have b: "fst (drop_selected [1] ?rows 0) = [(mk_row 1 (2024, 2, 6) ''Travel'' ''Rail'' 50 0)\<lparr>idx := 0\<rparr>]"
    by (simp add: mk_row_def row_data_def)
  have 1: "map original_index (store after_delete_add) = [1, 2]"
    "map idx (store after_delete_add) = [0, 1]"
    by (simp_all add: store_def d mk_row_def row_data_def)
  have 2: "map original_index (store (fst (delete_record ref_lib [2] True after_delete_add))) = [1, 2]"
    unfolding store_def delete_record_go(1) [OF d e n(1)] a
    by (simp add: mk_row_def row_data_def)
  have 3: "dialogs (fst (delete_record ref_lib [2] True after_delete_add))
       = dialogs after_delete_add @ [ShowWarning ''Could not delete records.'']"
    by (rule delete_record_none [OF d e n(1)]) (simp add: a)
  have 4: "map original_index (store (fst (delete_record ref_lib [1] True after_delete_add))) = [1]"
    unfolding store_def delete_record_go(1) [OF d e n(2)] b
    by (simp add: mk_row_def)
  show ?thesis using 1 2 3 4 by simp
qed

subsection \<open>A load that fails\<close>

lemma load_failed_simps [simp]:
  "l_df (load_failed st) = l_df st"
  "status_label (load_failed st) = ''Load Failed''"
  "l_dialogs (load_failed st) = l_dialogs st @ [ShowError ''Error'']"
  by (simp_all add: load_failed_def)

lemma assign_simps [simp]:
  "l_dialogs (assign a st) = l_dialogs st"
  "l_df (assign None st) = l_df st"
  "l_df (assign (Some f) st) = Some f"
  by (simp_all add: assign_def split: option.splits)

lemma load_file_path: "file_path \<noteq> [] \<Longrightarrow> load_file env file_path chosen st = load_path env file_path st"
  by (simp add: load_file_def)

lemma load_path_error:
  assumes "load_error env path = Some e"
  shows "status_label (load_path env path st) = ''Load Failed''"
    and "l_dialogs (load_path env path st) = l_dialogs st @ [ShowError ''Error'']"
proof -
  show "status_label (load_path env path st) = ''Load Failed''"
  proof (cases "read_phase env path")
    case (Inl p)
    then show ?thesis by (cases p) (simp add: load_path_def Let_def)
  next
    case (Inr f)
    obtain f' x where n: "normalise env f = (f', x)" by (cases "normalise env f")
    show ?thesis
    proof (cases x)
      case None
      with assms Inr n have "refresh_ui env f' = Some e" by (simp add: load_error_def)
      with Inr n None show ?thesis by (simp add: load_path_def Let_def)
    next
      case (Some a)
      with Inr n show ?thesis by (simp add: load_path_def Let_def)
    qed
  qed
  show "l_dialogs (load_path env path st) = l_dialogs st @ [ShowError ''Error'']"
  proof (cases "read_phase env path")
    case (Inl p)
    then show ?thesis by (cases p) (simp add: load_path_def Let_def)
  next
    case (Inr f)
    obtain f' x where n: "normalise env f = (f', x)" by (cases "normalise env f")
    show ?thesis
    proof (cases x)
      case None
      with assms Inr n have "refresh_ui env f' = Some e" by (simp add: load_error_def)
      with Inr n None show ?thesis by (simp add: load_path_def Let_def)
    next
      case (Some a)
      with Inr n show ?thesis by (simp add: load_path_def Let_def)
    qed
  qed
qed

lemma load_path_unread:
  "read_phase env path = Inl (None, e) \<Longrightarrow> l_df (load_path env path st) = l_df st"
  by (simp add: load_path_def Let_def)

lemma load_path_read:
  assumes "read_phase env path = Inr f"
  shows "l_df (load_path env path st) = Some (fst (normalise env f))"
proof -
  obtain f' x where n: "normalise env f = (f', x)" by (cases "normalise env f")
  show ?thesis using assms n by (simp add: load_path_def Let_def split: option.splits)
qed

text \<open>
  C2 (as amended). Whenever \<open>load_file\<close> fails, the error is shown to the user (an error
  dialog, status "Load Failed"). If it fails while the file is read, before any table
  has been assigned, the record table is left as it was. Once a table has been read,
  \<open>self.df\<close> holds it, normalised as far as the steps got, also when a required column
  is missing and the load fails.
\<close>

theorem load_failure_is_shown_and_read_failure_keeps_store:
  assumes "file_path \<noteq> []"
  shows "(\<forall>e. load_error env file_path = Some e \<longrightarrow>
            status_label (load_file env file_path chosen st) = ''Load Failed''
            \<and> l_dialogs (load_file env file_path chosen st) = l_dialogs st @ [ShowError ''Error''])
       \<and> (\<forall>e. read_phase env file_path = Inl (None, e) \<longrightarrow>
            l_df (load_file env file_path chosen st) = l_df st)
       \<and> (\<forall>f. read_phase env file_path = Inr f \<longrightarrow>
            l_df (load_file env file_path chosen st) = Some (fst (normalise env f)))"
  unfolding load_file_path [OF assms]
  using load_path_error load_path_unread load_path_read by blast

lemma read_csv_unreadable: "read_phase env_unreadable ''data.csv'' = Inl (None, ValueError)"
  by (simp add: read_phase_def endswith_def lower_def lower_char_def as_assigned_def env_unreadable_def)

lemma read_csv_no_merchant: "read_phase env_no_merchant ''data.csv'' = Inr no_merchant"
  by (simp add: read_phase_def endswith_def lower_def lower_char_def as_assigned_def env_no_merchant_def)

lemma normalise_no_merchant:
  "normalise env_no_merchant no_merchant
     = (\<lparr>nrows = 1, cols = [(''Expense Date'', [Txt ''2024-01-05'']),
                    (''Expense Category'', [Txt ''Food'']), (''Expense Amount'', [Num 30]),
                    (''Income Amount'', [Num 0]), (''Report Name'', [Txt ''R1'']),
                    (''original_index'', [Num 0]), (''Paid Through'', [Txt []])]\<rparr>, Some KeyError)"
  by (simp add: normalise_def no_merchant_def set_col_def has_col_def get_col_def drop_col_def)

text \<open>
  C2 as stated fails: loading a CSV file without the column Merchant Name fails with
  KeyError and leaves the table just read, not the previous one, in \<open>self.df\<close>.
\<close>

theorem failed_load_replaces_store_counterexample:
  "l_df loaded_before = Some old_table
   \<and> load_error env_no_merchant ''data.csv'' = Some KeyError
   \<and> status_label (load_file env_no_merchant ''data.csv'' [] loaded_before) = ''Load Failed''
   \<and> l_df (load_file env_no_merchant ''data.csv'' [] loaded_before)
       = Some \<lparr>nrows = 1, cols = [(''Expense Date'', [Txt ''2024-01-05'']),
                    (''Expense Category'', [Txt ''Food'']), (''Expense Amount'', [Num 30]),
                    (''Income Amount'', [Num 0]), (''Report Name'', [Txt ''R1'']),
                    (''original_index'', [Num 0]), (''Paid Through'', [Txt []])]\<rparr>
   \<and> l_df (load_file env_no_merchant ''data.csv'' [] loaded_before) \<noteq> l_df loaded_before"
proof -
  have p: "''data.csv'' \<noteq> []" by simp
  have e: "load_error env_no_merchant ''data.csv'' = Some KeyError"
    by (simp add: load_error_def read_csv_no_merchant normalise_no_merchant)
  have o: "l_df loaded_before = Some old_table" by (simp add: loaded_before_def)
  have d: "l_df (load_file env_no_merchant ''data.csv'' [] loaded_before)
             = Some (fst (normalise env_no_merchant no_merchant))"
    unfolding load_file_path [OF p] by (rule load_path_read [OF read_csv_no_merchant])
  have s: "status_label (load_file env_no_merchant ''data.csv'' [] loaded_before) = ''Load Failed''"
    unfolding load_file_path [OF p] by (rule load_path_error(1) [OF e])
  show ?thesis using e o d s by (simp add: normalise_no_merchant old_table_def)
qed

theorem load_failure_is_shown_and_read_failure_keeps_store_witness:
  "''data.csv'' \<noteq> []
   \<and> load_error env_unreadable ''data.csv'' = Some ValueError
   \<and> read_phase env_unreadable ''data.csv'' = Inl (None, ValueError)
   \<and> status_label (load_file env_unreadable ''data.csv'' [] loaded_before) = ''Load Failed''
   \<and> l_dialogs (load_file env_unreadable ''data.csv'' [] loaded_before) = [ShowError ''Error'']
   \<and> l_df (load_file env_unreadable ''data.csv'' [] loaded_before) = Some old_table
   \<and> read_phase env_no_merchant ''data.csv'' = Inr no_merchant
   \<and> l_df (load_file env_no_merchant ''data.csv'' [] loaded_before)
       = Some (fst (normalise env_no_merchant no_merchant))"
proof -
  have p: "''data.csv'' \<noteq> []" by simp
  have e: "load_error env_unreadable ''data.csv'' = Some ValueError"
    by (simp add: load_error_def read_csv_unreadable)
  have o: "l_df loaded_before = Some old_table" "l_dialogs loaded_before = []"
    by (simp_all add: loaded_before_def)
  from load_failure_is_shown_and_read_failure_keeps_store [OF p, of env_unreadable "[]" loaded_before]
    load_failure_is_shown_and_read_failure_keeps_store [OF p, of env_no_merchant "[]" loaded_before]
    e read_csv_unreadable read_csv_no_merchant o p
  show ?thesis by simp
qed

end
